theory Spec2Isabelle
  imports Complex_Main "HOL-Library.AList"
begin

section \<open>Runtime helpers of the templator: a shallow embedding of helpers.py\<close>

text \<open>
  The development follows \<^verbatim>\<open>src/helpers.py\<close> from top to bottom of its dependencies:
  Python text and its \<^verbatim>\<open>replace\<close>, the values the helpers receive and their
  \<^verbatim>\<open>str()\<close> rendering, \<^verbatim>\<open>htmlquote\<close>, \<^verbatim>\<open>websafe\<close>, \<^verbatim>\<open>safestr\<close>, the
  dictionary of Python, \<^verbatim>\<open>Storage\<close>, \<^verbatim>\<open>ThreadedDict\<close>, \<^verbatim>\<open>header\<close> and
  \<^verbatim>\<open>Memoize\<close>. The definitions come first, the properties after them.
\<close>

subsection \<open>Python text\<close>

text \<open>
  A Python 3 \<^verbatim>\<open>str\<close> is a sequence of Unicode code points, so it is a list of
  naturals here; a \<^verbatim>\<open>bytes\<close> object is a list of 8-bit characters, which is what
  \<^typ>\<open>string\<close> is. \<open>uni\<close> reads an ASCII literal as text.
\<close>

type_synonym str = "nat list"

definition uni :: "string \<Rightarrow> str" where
  "uni s = map of_char s"

text \<open>
  \<^verbatim>\<open>s.replace(old, new)\<close>: every non-overlapping occurrence of \<open>old\<close> in \<open>s\<close>, found
  from left to right, becomes \<open>new\<close>. With an empty \<open>old\<close> Python puts \<open>new\<close> before
  every character and at the end.
\<close>

function replace :: "str \<Rightarrow> str \<Rightarrow> str \<Rightarrow> str" where
  "replace old new s =
     (if old = [] then new @ concat (map (\<lambda>c. c # new) s)
      else if s = [] then []
      else if take (length old) s = old then new @ replace old new (drop (length old) s)
      else hd s # replace old new (tl s))"
  by pat_completeness auto
termination
  by (relation "measure (\<lambda>(old, new, s). length s)") auto

declare replace.simps [simp del]

subsection \<open>htmlquote\<close>

text \<open>
  Lines 197 to 209. The apostrophe is the character \<open>0x27\<close> and the double quote
  \<open>0x22\<close>.
\<close>

definition htmlquote :: "str \<Rightarrow> str" where
  "htmlquote text0 =
     (let text1 = replace (uni ''&'') (uni ''&amp;'') text0;
          text2 = replace (uni ''<'') (uni ''&lt;'') text1;
          text3 = replace (uni ''>'') (uni ''&gt;'') text2;
          text4 = replace (uni [CHR 0x27]) (uni ''&#39;'') text3;
          text5 = replace (uni [CHR 0x22]) (uni ''&quot;'') text4
      in text5)"

text \<open>
  What one character of the input becomes when no replacement sees the output of
  another: the reading of the escaping table as a table.
\<close>

definition html_entity :: "nat \<Rightarrow> str" where
  "html_entity c =
     (if c = of_char CHR ''&'' then uni ''&amp;''
      else if c = of_char CHR ''<'' then uni ''&lt;''
      else if c = of_char CHR ''>'' then uni ''&gt;''
      else if c = of_char (CHR 0x27) then uni ''&#39;''
      else if c = of_char (CHR 0x22) then uni ''&quot;''
      else [c])"

subsection \<open>Exceptions\<close>

text \<open>
  The exceptions the helpers raise or let through. \<^verbatim>\<open>AttributeError\<close> is raised by
  the source with a caught exception as its argument (\<^verbatim>\<open>raise AttributeError(k)\<close>,
  lines 32 and 41) and by Python itself with a message. \<open>Failure\<close> stands for whatever
  a callable wrapped by \<^verbatim>\<open>Memoize\<close> raises.
\<close>

datatype exn =
    KeyError str
  | AttributeError earg
  | ValueError str
  | NameError str
  | UnicodeDecodeError
  | Failure str
and earg = Message str | Caught exn

subsection \<open>Values and their rendering by str()\<close>

text \<open>
  The values the helpers are called with. \<open>PyIter t r xs\<close> is an object with
  \<^verbatim>\<open>__next__\<close> that yields the elements \<open>xs\<close> when it is pulled and is then exhausted;
  \<open>t\<close> is the truth value of the object in a condition and \<open>r\<close> the text that
  \<^verbatim>\<open>str()\<close> gives for the object itself. A generator and the iterators that Python
  builds define neither \<^verbatim>\<open>__bool__\<close> nor \<^verbatim>\<open>__len__\<close> and are true whatever they have
  left to yield; an object of a class that has \<^verbatim>\<open>__next__\<close> and one of these two methods
  is true or false as the method says. \<open>PyObject t r\<close> is an object of any other type,
  without \<^verbatim>\<open>__next__\<close>: \<open>t\<close> is its truth value and \<open>r\<close> the text \<^verbatim>\<open>str()\<close>
  returns for it. An object that never stops yielding and an object whose \<^verbatim>\<open>__str__\<close>
  raises are not values of the model.
\<close>

datatype pyval =
    PyNone
  | PyBool bool
  | PyInt int
  | PyStr str
  | PyBytes string
  | PyIter bool str "pyval list"
  | PyObject bool str

text \<open>The truth value Python gives an object in a condition.\<close>

fun truthy :: "pyval \<Rightarrow> bool" where
  "truthy PyNone = False"
| "truthy (PyBool b) = b"
| "truthy (PyInt i) = (i \<noteq> 0)"
| "truthy (PyStr s) = (s \<noteq> [])"
| "truthy (PyBytes b) = (b \<noteq> [])"
| "truthy (PyIter t r xs) = t"
| "truthy (PyObject t r) = t"

text \<open>\<^verbatim>\<open>hasattr(obj, "__next__")\<close>.\<close>

fun has_next :: "pyval \<Rightarrow> bool" where
  "has_next (PyIter t r xs) = True"
| "has_next v = False"

text \<open>The decimal digits of a natural number, and \<^verbatim>\<open>str()\<close> of an integer.\<close>

function digits :: "nat \<Rightarrow> str" where
  "digits n =
     (if n < 10 then [of_char CHR ''0'' + n]
      else digits (n div 10) @ [of_char CHR ''0'' + n mod 10])"
  by pat_completeness auto
termination
  by (relation "measure id") auto

declare digits.simps [simp del]

definition str_int :: "int \<Rightarrow> str" where
  "str_int i = (if i < 0 then uni ''-'' @ digits (nat (- i)) else digits (nat i))"

text \<open>
  \<^verbatim>\<open>str()\<close> of a bytes object is its literal: \<^verbatim>\<open>b\<close>, a quote, the bytes with the
  backslash, the quote, tab, line feed and carriage return escaped and every byte outside
  the printable ASCII range written \<^verbatim>\<open>\xhh\<close>, and the quote again. The quote is the
  apostrophe, unless the bytes hold an apostrophe and no double quote.
\<close>

definition hexdigit :: "nat \<Rightarrow> nat" where
  "hexdigit d = (if d < 10 then of_char CHR ''0'' + d else of_char CHR ''a'' + (d - 10))"

definition repr_byte :: "nat \<Rightarrow> nat \<Rightarrow> str" where
  "repr_byte quote c =
     (if c = quote \<or> c = 0x5C then [0x5C, c]
      else if c = 0x09 then [0x5C, of_char CHR ''t'']
      else if c = 0x0A then [0x5C, of_char CHR ''n'']
      else if c = 0x0D then [0x5C, of_char CHR ''r'']
      else if c < 0x20 \<or> 0x7F \<le> c
        then [0x5C, of_char CHR ''x'', hexdigit (c div 16), hexdigit (c mod 16)]
      else [c])"

definition repr_bytes :: "string \<Rightarrow> str" where
  "repr_bytes b =
     (let quote = (if CHR 0x27 \<in> set b \<and> CHR 0x22 \<notin> set b then 0x22 else 0x27)
      in uni ''b'' @ [quote] @ concat (map (\<lambda>c. repr_byte quote (of_char c)) b) @ [quote])"

fun py_str :: "pyval \<Rightarrow> str" where
  "py_str PyNone = uni ''None''"
| "py_str (PyBool b) = (if b then uni ''True'' else uni ''False'')"
| "py_str (PyInt i) = str_int i"
| "py_str (PyStr s) = s"
| "py_str (PyBytes b) = repr_bytes b"
| "py_str (PyIter t r xs) = r"
| "py_str (PyObject t r) = r"

subsection \<open>Decoding UTF-8\<close>

text \<open>
  \<^verbatim>\<open>b.decode("utf-8")\<close> with the default strict error handling: \<open>decode1\<close> reads one
  code point from the front of the bytes (given by their values) and refuses a stray
  continuation byte, an overlong form, a surrogate, a code point beyond \<open>0x10FFFF\<close> and a
  truncated sequence; a refusal is Python's \<^verbatim>\<open>UnicodeDecodeError\<close>.
\<close>

definition continuation :: "nat \<Rightarrow> bool" where
  "continuation b = (0x80 \<le> b \<and> b \<le> 0xBF)"

definition decode1 :: "nat list \<Rightarrow> (nat \<times> nat list) option" where
  "decode1 bs =
     (case bs of
        [] \<Rightarrow> None
      | b0 # r0 \<Rightarrow>
          if b0 < 0x80 then Some (b0, r0)
          else if 0xC2 \<le> b0 \<and> b0 \<le> 0xDF then
            (case r0 of
               b1 # r1 \<Rightarrow>
                 if continuation b1 then Some ((b0 - 0xC0) * 0x40 + (b1 - 0x80), r1) else None
             | _ \<Rightarrow> None)
          else if 0xE0 \<le> b0 \<and> b0 \<le> 0xEF then
            (case r0 of
               b1 # b2 # r2 \<Rightarrow>
                 if continuation b1 \<and> continuation b2
                    \<and> (if b0 = 0xE0 then 0xA0 \<le> b1 else True)
                    \<and> (if b0 = 0xED then b1 \<le> 0x9F else True)
                 then Some ((b0 - 0xE0) * 0x1000 + (b1 - 0x80) * 0x40 + (b2 - 0x80), r2)
                 else None
             | _ \<Rightarrow> None)
          else if 0xF0 \<le> b0 \<and> b0 \<le> 0xF4 then
            (case r0 of
               b1 # b2 # b3 # r3 \<Rightarrow>
                 if continuation b1 \<and> continuation b2 \<and> continuation b3
                    \<and> (if b0 = 0xF0 then 0x90 \<le> b1 else True)
                    \<and> (if b0 = 0xF4 then b1 \<le> 0x8F else True)
                 then Some ((b0 - 0xF0) * 0x40000 + (b1 - 0x80) * 0x1000
                            + (b2 - 0x80) * 0x40 + (b3 - 0x80), r3)
                 else None
             | _ \<Rightarrow> None)
          else None)"

lemma decode1_shorter: "decode1 bs = Some (c, r) \<Longrightarrow> length r < length bs"
  by (auto simp: decode1_def split: list.splits if_splits)

function utf8 :: "nat list \<Rightarrow> str option" where
  "utf8 bs =
     (if bs = [] then Some []
      else case decode1 bs of
             None \<Rightarrow> None
           | Some (c, r) \<Rightarrow> map_option ((#) c) (utf8 r))"
  by pat_completeness auto
termination
  by (relation "measure length") (auto dest: decode1_shorter)

declare utf8.simps [simp del]

definition decode_utf8 :: "string \<Rightarrow> exn + str" where
  "decode_utf8 b =
     (case utf8 (map of_char b) of None \<Rightarrow> Inl UnicodeDecodeError | Some s \<Rightarrow> Inr s)"

subsection \<open>websafe\<close>

text \<open>
  Lines 212 to 231: \<^verbatim>\<open>None\<close> gives the empty text; bytes are decoded, a value that
  is not text goes through \<^verbatim>\<open>str()\<close>, and the text is quoted. The result is a Python
  value, or the exception that the decoding raised.
\<close>

fun websafe :: "pyval \<Rightarrow> exn + pyval" where
  "websafe PyNone = Inr (PyStr (uni ''''))"
| "websafe (PyBytes b) =
     (case decode_utf8 b of Inl e \<Rightarrow> Inl e | Inr s \<Rightarrow> Inr (PyStr (htmlquote s)))"
| "websafe (PyStr s) = Inr (PyStr (htmlquote s))"
| "websafe val = Inr (PyStr (htmlquote (py_str val)))"

subsection \<open>safestr\<close>

text \<open>
  Lines 262 to 275. The result is a text or a list of results, one for each element
  pulled from the iterator. The parameter \<^verbatim>\<open>encoding\<close> is never used by the source.
\<close>

datatype coerced = Text str | Seq "coerced list"

fun safestr :: "pyval \<Rightarrow> coerced" where
  "safestr obj =
     (if truthy obj \<and> has_next obj
      then (case obj of PyIter t r xs \<Rightarrow> Seq (map safestr xs) | _ \<Rightarrow> Seq [])
      else Text (py_str obj))"

declare safestr.simps [simp del]

subsection \<open>The dictionary of Python\<close>

text \<open>
  A \<^verbatim>\<open>dict\<close> keeps its keys in the order of their insertion (\<^verbatim>\<open>popitem\<close> takes the
  last one), so it is an association list with distinct keys: \<open>AList.update\<close> overwrites a
  key in place or appends it, \<open>AList.delete\<close> removes it. Keys are texts.
\<close>

type_synonym 'v dict = "(str \<times> 'v) list"

definition dict_contains :: "'v dict \<Rightarrow> str \<Rightarrow> bool" where
  "dict_contains d key = (map_of d key \<noteq> None)"

definition dict_getitem :: "'v dict \<Rightarrow> str \<Rightarrow> exn + 'v" where
  "dict_getitem d key = (case map_of d key of None \<Rightarrow> Inl (KeyError key) | Some v \<Rightarrow> Inr v)"

definition dict_setitem :: "'v dict \<Rightarrow> str \<Rightarrow> 'v \<Rightarrow> 'v dict" where
  "dict_setitem d key v = AList.update key v d"

definition dict_delitem :: "'v dict \<Rightarrow> str \<Rightarrow> exn + 'v dict" where
  "dict_delitem d key =
     (if dict_contains d key then Inr (AList.delete key d) else Inl (KeyError key))"

definition dict_get :: "'v dict \<Rightarrow> str \<Rightarrow> 'v \<Rightarrow> 'v" where
  "dict_get d key dflt = (case map_of d key of None \<Rightarrow> dflt | Some v \<Rightarrow> v)"

text \<open>\<^verbatim>\<open>d.pop(key, *args)\<close> with no further argument or with one, the default.\<close>

definition dict_pop :: "'v dict \<Rightarrow> str \<Rightarrow> 'v option \<Rightarrow> (exn + 'v) \<times> 'v dict" where
  "dict_pop d key args =
     (case map_of d key of
        Some v \<Rightarrow> (Inr v, AList.delete key d)
      | None \<Rightarrow> (case args of None \<Rightarrow> (Inl (KeyError key), d) | Some dflt \<Rightarrow> (Inr dflt, d)))"

definition dict_popitem :: "'v dict \<Rightarrow> (exn + str \<times> 'v) \<times> 'v dict" where
  "dict_popitem d =
     (if d = [] then (Inl (KeyError (uni ''popitem(): dictionary is empty'')), d)
      else (Inr (last d), butlast d))"

definition dict_setdefault :: "'v dict \<Rightarrow> str \<Rightarrow> 'v \<Rightarrow> 'v \<times> 'v dict" where
  "dict_setdefault d key dflt =
     (case map_of d key of Some v \<Rightarrow> (v, d) | None \<Rightarrow> (dflt, AList.update key dflt d))"

text \<open>\<^verbatim>\<open>d.update(...)\<close> with the pairs of its arguments, in their order.\<close>

definition dict_update :: "'v dict \<Rightarrow> (str \<times> 'v) list \<Rightarrow> 'v dict" where
  "dict_update d pairs = foldl (\<lambda>acc (key, v). AList.update key v acc) d pairs"

subsection \<open>Storage\<close>

text \<open>
  Lines 7 to 44: a \<^verbatim>\<open>dict\<close> with three hooks. The hooks are the methods
  \<^verbatim>\<open>__getattr__\<close>, \<^verbatim>\<open>__setattr__\<close> and \<^verbatim>\<open>__delattr__\<close>.
\<close>

definition Storage_getattr :: "'v dict \<Rightarrow> str \<Rightarrow> exn + 'v" where
  "Storage_getattr self key =
     (case dict_getitem self key of
        Inr v \<Rightarrow> Inr v
      | Inl (KeyError k) \<Rightarrow> Inl (AttributeError (Caught (KeyError k)))
      | Inl e \<Rightarrow> Inl e)"

definition Storage_setattr :: "'v dict \<Rightarrow> str \<Rightarrow> 'v \<Rightarrow> 'v dict" where
  "Storage_setattr self key v = dict_setitem self key v"

definition Storage_delattr :: "'v dict \<Rightarrow> str \<Rightarrow> exn + 'v dict" where
  "Storage_delattr self key =
     (case dict_delitem self key of
        Inr d \<Rightarrow> Inr d
      | Inl (KeyError k) \<Rightarrow> Inl (AttributeError (Caught (KeyError k)))
      | Inl e \<Rightarrow> Inl e)"

text \<open>
  Python calls \<^verbatim>\<open>__setattr__\<close> and \<^verbatim>\<open>__delattr__\<close> for every \<^verbatim>\<open>obj.key = v\<close> and
  \<^verbatim>\<open>del obj.key\<close>, but \<^verbatim>\<open>__getattr__\<close> only when the regular lookup of \<^verbatim>\<open>obj.key\<close>
  finds nothing: a name that the class provides is answered by the class and never
  reaches the hook. The class statement of \<^verbatim>\<open>Storage\<close> binds its docstring and its four
  methods; \<open>inherited\<close> are the other names that the class provides, those that Python
  gives every class and those that \<^verbatim>\<open>dict\<close> and \<^verbatim>\<open>object\<close> define (\<^verbatim>\<open>keys\<close>,
  \<^verbatim>\<open>items\<close>, \<^verbatim>\<open>__class__\<close> and so on), which the source does not list. An instance of
  \<^verbatim>\<open>Storage\<close> has no attributes of its own, since every write goes to the dictionary.
\<close>

definition Storage_declared :: "str list" where
  "Storage_declared =
     [uni ''__doc__'', uni ''__getattr__'', uni ''__setattr__'', uni ''__delattr__'',
      uni ''__repr__'']"

datatype 'v attribute = Entry 'v | ClassAttribute str

definition Storage_member_read :: "str list \<Rightarrow> 'v dict \<Rightarrow> str \<Rightarrow> exn + 'v attribute" where
  "Storage_member_read inherited self key =
     (if key \<in> set Storage_declared \<or> key \<in> set inherited then Inr (ClassAttribute key)
      else (case Storage_getattr self key of Inl e \<Rightarrow> Inl e | Inr v \<Rightarrow> Inr (Entry v)))"

definition Storage_member_write :: "'v dict \<Rightarrow> str \<Rightarrow> 'v \<Rightarrow> 'v dict" where
  "Storage_member_write self key v = Storage_setattr self key v"

definition Storage_member_delete :: "'v dict \<Rightarrow> str \<Rightarrow> exn + 'v dict" where
  "Storage_member_delete self key = Storage_delattr self key"

subsection \<open>ThreadedDict\<close>

text \<open>
  Lines 50 to 150. \<^verbatim>\<open>ThreadedDict\<close> extends \<^verbatim>\<open>threading.local\<close>, for which
  \<^verbatim>\<open>self.__dict__\<close> is a dictionary of the thread that runs the code. The state of one
  handle is therefore a dictionary for every thread, and every method takes the thread
  \<open>t\<close> that calls it and reads \<^verbatim>\<open>self.__dict__\<close> as \<open>self t\<close>. The registry
  \<^verbatim>\<open>_instances\<close> and \<^verbatim>\<open>clear_all\<close>, which range over several handles, are left out.
\<close>

type_synonym ('t, 'v) ThreadedDict = "'t \<Rightarrow> 'v dict"

definition getitem :: "'t \<Rightarrow> ('t, 'v) ThreadedDict \<Rightarrow> str \<Rightarrow> exn + 'v" where
  "getitem t self key = dict_getitem (self t) key"

definition setitem :: "'t \<Rightarrow> ('t, 'v) ThreadedDict \<Rightarrow> str \<Rightarrow> 'v \<Rightarrow> ('t, 'v) ThreadedDict" where
  "setitem t self key v = self(t := dict_setitem (self t) key v)"

definition delitem :: "'t \<Rightarrow> ('t, 'v) ThreadedDict \<Rightarrow> str \<Rightarrow> exn + ('t, 'v) ThreadedDict" where
  "delitem t self key =
     (case dict_delitem (self t) key of Inl e \<Rightarrow> Inl e | Inr d \<Rightarrow> Inr (self(t := d)))"

definition contains :: "'t \<Rightarrow> ('t, 'v) ThreadedDict \<Rightarrow> str \<Rightarrow> bool" where
  "contains t self key = dict_contains (self t) key"

definition clear :: "'t \<Rightarrow> ('t, 'v) ThreadedDict \<Rightarrow> ('t, 'v) ThreadedDict" where
  "clear t self = self(t := [])"

definition copy :: "'t \<Rightarrow> ('t, 'v) ThreadedDict \<Rightarrow> 'v dict" where
  "copy t self = self t"

definition get :: "'t \<Rightarrow> ('t, 'v) ThreadedDict \<Rightarrow> str \<Rightarrow> 'v \<Rightarrow> 'v" where
  "get t self key dflt = dict_get (self t) key dflt"

definition items :: "'t \<Rightarrow> ('t, 'v) ThreadedDict \<Rightarrow> (str \<times> 'v) list" where
  "items t self = self t"

definition keys :: "'t \<Rightarrow> ('t, 'v) ThreadedDict \<Rightarrow> str list" where
  "keys t self = map fst (self t)"

definition values_of :: "'t \<Rightarrow> ('t, 'v) ThreadedDict \<Rightarrow> 'v list" where
  "values_of t self = map snd (self t)"

text \<open>
  The module defines no \<^verbatim>\<open>iteritems\<close>, \<^verbatim>\<open>iterkeys\<close> or \<^verbatim>\<open>itervalues\<close>, so to
  look one of these names up raises \<^verbatim>\<open>NameError\<close>, before \<^verbatim>\<open>self.__dict__\<close> is read.
  The method \<^verbatim>\<open>iterkeys\<close> catches that exception and returns the keys. \<^verbatim>\<open>has_key\<close>
  is another name of \<^verbatim>\<open>__contains__\<close> and \<^verbatim>\<open>iter\<close> of \<^verbatim>\<open>iterkeys\<close>.
\<close>

definition undefined_name :: "string \<Rightarrow> exn + 'a" where
  "undefined_name name = Inl (NameError (uni name))"

definition iteritems :: "'t \<Rightarrow> ('t, 'v) ThreadedDict \<Rightarrow> exn + (str \<times> 'v) list" where
  "iteritems t self = undefined_name ''iteritems''"

definition iterkeys :: "'t \<Rightarrow> ('t, 'v) ThreadedDict \<Rightarrow> exn + str list" where
  "iterkeys t self =
     (case undefined_name ''iterkeys'' of
        Inr ks \<Rightarrow> Inr ks
      | Inl (NameError n) \<Rightarrow> Inr (keys t self)
      | Inl e \<Rightarrow> Inl e)"

definition itervalues :: "'t \<Rightarrow> ('t, 'v) ThreadedDict \<Rightarrow> exn + 'v list" where
  "itervalues t self = undefined_name ''itervalues''"

definition pop :: "'t \<Rightarrow> ('t, 'v) ThreadedDict \<Rightarrow> str \<Rightarrow> 'v option
    \<Rightarrow> (exn + 'v) \<times> ('t, 'v) ThreadedDict" where
  "pop t self key args = (case dict_pop (self t) key args of (r, d) \<Rightarrow> (r, self(t := d)))"

definition popitem :: "'t \<Rightarrow> ('t, 'v) ThreadedDict \<Rightarrow> (exn + str \<times> 'v) \<times> ('t, 'v) ThreadedDict" where
  "popitem t self = (case dict_popitem (self t) of (r, d) \<Rightarrow> (r, self(t := d)))"

definition setdefault :: "'t \<Rightarrow> ('t, 'v) ThreadedDict \<Rightarrow> str \<Rightarrow> 'v \<Rightarrow> 'v \<times> ('t, 'v) ThreadedDict" where
  "setdefault t self key dflt =
     (case dict_setdefault (self t) key dflt of (v, d) \<Rightarrow> (v, self(t := d)))"

definition update :: "'t \<Rightarrow> ('t, 'v) ThreadedDict \<Rightarrow> (str \<times> 'v) list \<Rightarrow> ('t, 'v) ThreadedDict" where
  "update t self pairs = self(t := dict_update (self t) pairs)"

text \<open>
  The map operations as data, and what a thread gets back from one: the value the
  method returns or the exception it raises, and the state of the handle after it.
\<close>

datatype 'v operation =
    GetItem str
  | SetItem str 'v
  | DelItem str
  | Contains str
  | Clear
  | Copy
  | Get str 'v
  | Items
  | IterItems
  | Keys
  | IterKeys
  | Values
  | IterValues
  | Pop str "'v option"
  | PopItem
  | SetDefault str 'v
  | Update "(str \<times> 'v) list"

datatype 'v returned =
    NoValue
  | Truth bool
  | Single 'v
  | Pair str 'v
  | KeyList "str list"
  | ValueList "'v list"
  | PairList "(str \<times> 'v) list"

fun perform :: "'t \<Rightarrow> 'v operation \<Rightarrow> ('t, 'v) ThreadedDict
    \<Rightarrow> (exn + 'v returned) \<times> ('t, 'v) ThreadedDict" where
  "perform t (GetItem key) self = (map_sum id Single (getitem t self key), self)"
| "perform t (SetItem key v) self = (Inr NoValue, setitem t self key v)"
| "perform t (DelItem key) self =
     (case delitem t self key of Inl e \<Rightarrow> (Inl e, self) | Inr self' \<Rightarrow> (Inr NoValue, self'))"
| "perform t (Contains key) self = (Inr (Truth (contains t self key)), self)"
| "perform t Clear self = (Inr NoValue, clear t self)"
| "perform t Copy self = (Inr (PairList (copy t self)), self)"
| "perform t (Get key dflt) self = (Inr (Single (get t self key dflt)), self)"
| "perform t Items self = (Inr (PairList (items t self)), self)"
| "perform t IterItems self = (map_sum id PairList (iteritems t self), self)"
| "perform t Keys self = (Inr (KeyList (keys t self)), self)"
| "perform t IterKeys self = (map_sum id KeyList (iterkeys t self), self)"
| "perform t Values self = (Inr (ValueList (values_of t self)), self)"
| "perform t IterValues self = (map_sum id ValueList (itervalues t self), self)"
| "perform t (Pop key args) self =
     (case pop t self key args of (r, self') \<Rightarrow> (map_sum id Single r, self'))"
| "perform t PopItem self =
     (case popitem t self of (r, self') \<Rightarrow> (map_sum id (\<lambda>(k, v). Pair k v) r, self'))"
| "perform t (SetDefault key dflt) self =
     (case setdefault t self key dflt of (v, self') \<Rightarrow> (Inr (Single v), self'))"
| "perform t (Update pairs) self = (Inr NoValue, update t self pairs)"

text \<open>
  A run of the handle: operations of several threads, one after the other in any
  interleaving, each given with the thread that performs it.
\<close>

fun perform_all :: "('t \<times> 'v operation) list \<Rightarrow> ('t, 'v) ThreadedDict \<Rightarrow> ('t, 'v) ThreadedDict" where
  "perform_all [] self = self"
| "perform_all ((t, op) # rest) self = perform_all rest (snd (perform t op self))"

subsection \<open>header\<close>

text \<open>
  \<^verbatim>\<open>x in hdr\<close> (line 252) asks, for a text \<open>hdr\<close>, whether \<open>x\<close> occurs in it, and for
  a list \<open>hdr\<close>, whether \<open>x\<close> is one of its elements.
\<close>

fun occurs :: "str \<Rightarrow> str \<Rightarrow> bool" where
  "occurs x [] = (x = [])"
| "occurs x (c # s) = (take (length x) (c # s) = x \<or> occurs x s)"

definition py_in :: "str \<Rightarrow> coerced \<Rightarrow> bool" where
  "py_in x hdr = (case hdr of Text s \<Rightarrow> occurs x s | Seq ys \<Rightarrow> Text x \<in> set ys)"

text \<open>The message of Python for an attribute that an object does not have.\<close>

definition no_attribute :: "string \<Rightarrow> string \<Rightarrow> exn" where
  "no_attribute type_name name =
     AttributeError (Message (uni ([CHR 0x27] @ type_name @ [CHR 0x27]
       @ '' object has no attribute '' @ [CHR 0x27] @ name @ [CHR 0x27])))"

text \<open>
  \<^verbatim>\<open>h.lower()\<close>: a text has the method, a list has not. What the method does to a text
  is Unicode's table of lower case, which is not in the source: it is the parameter
  \<open>lower\<close> of everything that follows.
\<close>

definition lower_method :: "(str \<Rightarrow> str) \<Rightarrow> coerced \<Rightarrow> exn + str" where
  "lower_method lower h =
     (case h of Text s \<Rightarrow> Inr (lower s) | Seq ys \<Rightarrow> Inl (no_attribute ''list'' ''lower''))"

text \<open>
  The entry \<^verbatim>\<open>headers\<close> of the request context is a list of pairs (lines 189 and 190).
  \<^verbatim>\<open>header\<close> itself appends what \<^verbatim>\<open>safestr\<close> returns, so the components are texts or
  lists. \<^verbatim>\<open>ctx\<close> is a \<^verbatim>\<open>ThreadedDict\<close>; of its entries only \<^verbatim>\<open>headers\<close> is read by
  the code, so the values of the model of \<^verbatim>\<open>ctx\<close> are lists of headers.
\<close>

type_synonym headers = "(coerced \<times> coerced) list"

text \<open>
  \<^verbatim>\<open>ctx.headers\<close>, by the attribute access of \<^verbatim>\<open>threading.local\<close>: the entry of the
  calling thread's dictionary, or \<^verbatim>\<open>AttributeError\<close>.
\<close>

definition ctx_headers :: "'t \<Rightarrow> ('t, headers) ThreadedDict \<Rightarrow> exn + headers" where
  "ctx_headers t ctx =
     (case map_of (ctx t) (uni ''headers'') of
        None \<Rightarrow> Inl (no_attribute ''ThreadedDict'' ''headers'')
      | Some hs \<Rightarrow> Inr hs)"

text \<open>
  The loop of lines 255 to 257: \<open>Inr True\<close> when it reaches the \<^verbatim>\<open>return\<close>, \<open>Inr False\<close>
  when it runs to its end.
\<close>

fun header_exists :: "(str \<Rightarrow> str) \<Rightarrow> coerced \<Rightarrow> headers \<Rightarrow> exn + bool" where
  "header_exists lower hdr [] = Inr False"
| "header_exists lower hdr ((h, v) # rest) =
     (case lower_method lower h of
        Inl e \<Rightarrow> Inl e
      | Inr a \<Rightarrow>
          (case lower_method lower hdr of
             Inl e \<Rightarrow> Inl e
           | Inr b \<Rightarrow> if a = b then Inr True else header_exists lower hdr rest))"

text \<open>
  Lines 243 to 259, run by thread \<open>t\<close>. \<^verbatim>\<open>unique is True\<close> holds for the object
  \<^verbatim>\<open>True\<close> and for nothing else. The result is the exception raised, if any, and the
  request context after the call; \<^verbatim>\<open>append\<close> changes the list that the context holds.
\<close>

definition header :: "(str \<Rightarrow> str) \<Rightarrow> 't \<Rightarrow> pyval \<Rightarrow> pyval \<Rightarrow> pyval
    \<Rightarrow> ('t, headers) ThreadedDict \<Rightarrow> (exn + unit) \<times> ('t, headers) ThreadedDict" where
  "header lower t hdr0 value0 unique ctx =
     (let hdr = safestr hdr0; val = safestr value0 in
      if py_in (uni [CHR 0x0A]) hdr \<or> py_in (uni [CHR 0x0D]) hdr
         \<or> py_in (uni [CHR 0x0A]) val \<or> py_in (uni [CHR 0x0D]) val
      then (Inl (ValueError (uni ''invalid characters in header'')), ctx)
      else
        (case (if unique = PyBool True
               then (case ctx_headers t ctx of
                       Inl e \<Rightarrow> Inl e
                     | Inr hs \<Rightarrow> header_exists lower hdr hs)
               else Inr False) of
           Inl e \<Rightarrow> (Inl e, ctx)
         | Inr True \<Rightarrow> (Inr (), ctx)
         | Inr False \<Rightarrow>
             (case ctx_headers t ctx of
                Inl e \<Rightarrow> (Inl e, ctx)
              | Inr hs \<Rightarrow> (Inr (), setitem t ctx (uni ''headers'') (hs @ [(hdr, val)])))))"

text \<open>
  Notions in which the properties of \<^verbatim>\<open>header\<close> are stated. A result of \<^verbatim>\<open>safestr\<close>
  has a line break, in the sense of the test of line 252, when it is a text that holds a
  line feed or a carriage return, or a list that has the text of one line feed or of one
  carriage return among its elements.
\<close>

definition has_line_break :: "coerced \<Rightarrow> bool" where
  "has_line_break c =
     (case c of
        Text s \<Rightarrow> 0x0A \<in> set s \<or> 0x0D \<in> set s
      | Seq ys \<Rightarrow> Text [0x0A] \<in> set ys \<or> Text [0x0D] \<in> set ys)"

text \<open>The headers whose names are texts, and the entries that have the name \<open>n\<close> in any case.\<close>

definition names_are_texts :: "headers \<Rightarrow> bool" where
  "names_are_texts hs = list_all (\<lambda>(h, v). case h of Text s \<Rightarrow> True | Seq ys \<Rightarrow> False) hs"

definition named :: "(str \<Rightarrow> str) \<Rightarrow> str \<Rightarrow> headers \<Rightarrow> headers" where
  "named lower n hs = filter (\<lambda>(h, v). lower_method lower h = Inr (lower n)) hs"

text \<open>
  What \<^verbatim>\<open>str.lower\<close> does to a text of ASCII characters, for the examples.
\<close>

definition ascii_lower :: "str \<Rightarrow> str" where
  "ascii_lower s = map (\<lambda>c. if 0x41 \<le> c \<and> c \<le> 0x5A then c + 0x20 else c) s"

subsection \<open>Memoize\<close>

text \<open>
  Lines 282 to 362. Everything outside the \<^verbatim>\<open>Memoize\<close> object is the world: the
  state that the wrapped callable reads and writes, the clock that \<^verbatim>\<open>time.time()\<close>
  reads, and the threads that have been started with \<^verbatim>\<open>update\<close> as their target and
  have not run yet. The wrapped callable takes the key (the arguments of the call) and
  the world, and returns its result or the exception it raises, and the world after it.
\<close>

record ('k, 's) world =
  state :: 's
  now :: real
  started :: "'k list"

text \<open>
  The fields of \<^verbatim>\<open>__init__\<close>. \<^verbatim>\<open>expires\<close> is \<^verbatim>\<open>None\<close> or a number of seconds.
  \<^verbatim>\<open>running\<close> maps a key to its lock, \<open>True\<close> while a thread holds it.
  \<^verbatim>\<open>running_lock\<close> only guards the creation of a lock and is free whenever a call
  begins, so it has no field.
\<close>

record ('k, 'r, 's) Memoize =
  func :: "'k \<Rightarrow> ('k, 's) world \<Rightarrow> (exn + 'r) \<times> ('k, 's) world"
  cache :: "'k \<rightharpoonup> 'r \<times> real"
  expires :: "real option"
  background :: bool
  running :: "'k \<rightharpoonup> bool"




text \<open>How a call ends: it returns or it raises.\<close>

datatype 'a outcome = Returned 'a | Raised exn

text \<open>
  Lines 350 to 353, which a thread runs while it holds the lock of the key: the
  callable is invoked and its result stored with the time; the \<^verbatim>\<open>finally\<close> clause
  releases the lock whether the callable returned or raised.
\<close>

definition Memoize_compute :: "'k \<Rightarrow> ('k, 'r, 's) Memoize \<Rightarrow> ('k, 's) world
    \<Rightarrow> unit outcome \<times> ('k, 'r, 's) Memoize \<times> ('k, 's) world" where
  "Memoize_compute key self w =
     (case func self key w of
        (Inl e, w') \<Rightarrow> (Raised e, self\<lparr>running := (running self)(key \<mapsto> False)\<rparr>, w')
      | (Inr r, w') \<Rightarrow>
          (Returned (),
           self\<lparr>cache := (cache self)(key \<mapsto> (r, now w')),
                running := (running self)(key \<mapsto> False)\<rparr>,
           w'))"

text \<open>
  The inner function \<^verbatim>\<open>update\<close> (lines 348 to 353). \<^verbatim>\<open>acquire(block)\<close> takes a
  free lock. A held lock is the lock of a thread that is inside \<^verbatim>\<open>update\<close> for the
  same key, between its \<^verbatim>\<open>acquire\<close> and its \<^verbatim>\<open>release\<close>, with lines 350 to 353 to
  run. With \<open>block\<close> false the \<^verbatim>\<open>acquire\<close> gives up and \<^verbatim>\<open>update\<close> does nothing.
  With \<open>block\<close> true it waits until that thread has released the lock, that is, until
  the holder has run its lines 350 to 353; then it takes the lock and runs these lines
  itself, so the callable is invoked a second time and the entry of the holder is
  overwritten.
\<close>

definition Memoize_update :: "'k \<Rightarrow> bool \<Rightarrow> ('k, 'r, 's) Memoize \<Rightarrow> ('k, 's) world
    \<Rightarrow> unit outcome \<times> ('k, 'r, 's) Memoize \<times> ('k, 's) world" where
  "Memoize_update key block self w =
     (case running self key of
        None \<Rightarrow> (Raised (Failure (uni ''KeyError'')), self, w)
      | Some False \<Rightarrow> Memoize_compute key (self\<lparr>running := (running self)(key \<mapsto> True)\<rparr>) w
      | Some True \<Rightarrow>
          if block
          then (case Memoize_compute key self w of
                  (holder, self', w') \<Rightarrow>
                    Memoize_compute key (self'\<lparr>running := (running self')(key \<mapsto> True)\<rparr>) w')
          else (Returned (), self, w))"

text \<open>\<^verbatim>\<open>return self.cache[key][0]\<close> (line 362).\<close>

definition cached_result :: "'k \<Rightarrow> ('k, 'r, 's) Memoize \<Rightarrow> 'r outcome" where
  "cached_result key self =
     (case cache self key of
        None \<Rightarrow> Raised (Failure (uni ''KeyError''))
      | Some (r, stamp) \<Rightarrow> Returned r)"

text \<open>
  \<^verbatim>\<open>__call__\<close> (lines 342 to 362). A lock is created for a key that has none. The
  condition \<^verbatim>\<open>self.expires and ...\<close> is false for \<^verbatim>\<open>None\<close> and for zero. In the
  background case the thread is started and the call goes on to return what the cache
  holds.
\<close>

definition Memoize_call :: "'k \<Rightarrow> ('k, 'r, 's) Memoize \<Rightarrow> ('k, 's) world
    \<Rightarrow> 'r outcome \<times> ('k, 'r, 's) Memoize \<times> ('k, 's) world" where
  "Memoize_call key self0 w =
     (let self = (if running self0 key = None
                  then self0\<lparr>running := (running self0)(key \<mapsto> False)\<rparr> else self0)
      in case cache self key of
           None \<Rightarrow>
             (case Memoize_update key True self w of
                (Returned u, self', w') \<Rightarrow> (cached_result key self', self', w')
              | (Raised e, self', w') \<Rightarrow> (Raised e, self', w'))
         | Some (r, stamp) \<Rightarrow>
             (case expires self of
                None \<Rightarrow> (cached_result key self, self, w)
              | Some secs \<Rightarrow>
                  if secs \<noteq> 0 \<and> now w - stamp > secs
                  then (if background self
                        then (cached_result key self, self, w\<lparr>started := started w @ [key]\<rparr>)
                        else (case Memoize_update key False self w of
                                (Returned u, self', w') \<Rightarrow> (cached_result key self', self', w')
                              | (Raised e, self', w') \<Rightarrow> (Raised e, self', w')))
                  else (cached_result key self, self, w)))"


text \<open>
  The beginning of a call, up to the \<^verbatim>\<open>acquire\<close> of line 349, by a thread that finds
  no entry for the key and the lock free: the lock is created if the key has none, and
  taken. The thread has lines 350 to 353 before it; until it has run them, the calls of
  other threads find the lock held.
\<close>

definition Memoize_enter :: "'k \<Rightarrow> ('k, 'r, 's) Memoize \<Rightarrow> ('k, 'r, 's) Memoize" where
  "Memoize_enter key self0 =
     (let self = (if running self0 key = None
                  then self0\<lparr>running := (running self0)(key \<mapsto> False)\<rparr> else self0)
      in if cache self key = None \<and> running self key = Some False
         then self\<lparr>running := (running self)(key \<mapsto> True)\<rparr>
         else self)"

section \<open>Properties\<close>

subsection \<open>Replacing one character\<close>

lemma replace_char_Nil: "replace [c] new [] = []"
  by (simp add: replace.simps)

lemma replace_char_Cons:
  "replace [c] new (x # xs) =
     (if x = c then new @ replace [c] new xs else x # replace [c] new xs)"
  by (subst replace.simps) simp

lemma replace_char_concat:
  "replace [c] new s = concat (map (\<lambda>x. if x = c then new else [x]) s)"
  by (induction s) (simp_all add: replace_char_Nil replace_char_Cons)

lemma replace_char_append:
  "replace [c] new (xs @ ys) = replace [c] new xs @ replace [c] new ys"
  by (simp add: replace_char_concat)

lemma htmlquote_Nil: "htmlquote [] = []"
  by (simp add: htmlquote_def uni_def replace_char_Nil)

lemma htmlquote_append: "htmlquote (xs @ ys) = htmlquote xs @ htmlquote ys"
  by (simp add: htmlquote_def uni_def replace_char_append)

lemma htmlquote_single: "htmlquote [c] = html_entity c"
  by (simp add: htmlquote_def html_entity_def uni_def replace_char_Cons replace_char_Nil)

lemma htmlquote_concat: "htmlquote s = concat (map html_entity s)"
proof (induction s)
  case Nil
  show ?case by (simp add: htmlquote_Nil)
next
  case (Cons c s)
  have "htmlquote (c # s) = htmlquote ([c] @ s)" by simp
  also have "\<dots> = html_entity c @ htmlquote s"
    by (simp only: htmlquote_append htmlquote_single)
  finally show ?case by (simp add: Cons.IH)
qed

subsection \<open>C1: htmlquote\<close>

text \<open>
  C1. For every text, \<^verbatim>\<open>htmlquote\<close> (the five replacements of the source, the
  ampersand first) returns the text in which every \<^verbatim>\<open>&\<close> has become \<^verbatim>\<open>&amp;\<close>,
  every \<^verbatim>\<open><\<close> \<^verbatim>\<open>&lt;\<close>, every \<^verbatim>\<open>>\<close> \<^verbatim>\<open>&gt;\<close>, every apostrophe \<^verbatim>\<open>&#39;\<close> and
  every double quote \<^verbatim>\<open>&quot;\<close>, each character of the input escaped once: the
  ampersand that a later replacement introduces is not escaped again. The text of the
  five characters \<^verbatim>\<open><\<close>, apostrophe, \<^verbatim>\<open>&\<close>, double quote, \<^verbatim>\<open>>\<close> becomes
  \<^verbatim>\<open>&lt;&#39;&amp;&quot;&gt;\<close>.
\<close>

theorem htmlquote_escapes_each_character_once:
  "htmlquote s = concat (map html_entity s)
   \<and> htmlquote (uni [CHR ''<'', CHR 0x27, CHR ''&'', CHR 0x22, CHR ''>''])
       = uni ''&lt;&#39;&amp;&quot;&gt;''"
  by (simp add: htmlquote_concat) (simp add: html_entity_def uni_def)

subsection \<open>Text without the five characters\<close>

lemma html_entity_plain:
  "c \<notin> {0x26, 0x3C, 0x3E, 0x27, 0x22} \<Longrightarrow> html_entity c = [c]"
  by (simp add: html_entity_def)

lemma htmlquote_plain:
  "set s \<inter> {0x26, 0x3C, 0x3E, 0x27, 0x22} = {} \<Longrightarrow> htmlquote s = s"
proof (induction s)
  case Nil
  show ?case by (simp add: htmlquote_Nil)
next
  case (Cons c s)
  then have "html_entity c = [c]" and "htmlquote s = s"
    by (simp_all add: html_entity_plain)
  then show ?case
    using htmlquote_concat [of "c # s"] htmlquote_concat [of s] by simp
qed

subsection \<open>What websafe returns and when it raises\<close>

lemma websafe_bytes:
  "websafe (PyBytes b) =
     (case utf8 (map of_char b) of
        None \<Rightarrow> Inl UnicodeDecodeError
      | Some s \<Rightarrow> Inr (PyStr (htmlquote s)))"
  by (simp add: decode_utf8_def split: option.splits)

lemma websafe_other:
  "v \<noteq> PyNone \<Longrightarrow> \<forall>x. v \<noteq> PyBytes x \<Longrightarrow> \<forall>x. v \<noteq> PyStr x
   \<Longrightarrow> websafe v = Inr (PyStr (htmlquote (py_str v)))"
  by (cases v) simp_all

lemma websafe_total:
  "(\<exists>t. websafe v = Inr (PyStr t))
   \<or> (\<exists>x. v = PyBytes x \<and> utf8 (map of_char x) = None \<and> websafe v = Inl UnicodeDecodeError)"
  by (cases v) (auto simp: decode_utf8_def split: option.splits)

subsection \<open>C6: websafe\<close>

text \<open>
  C6. \<^verbatim>\<open>websafe\<close> returns the empty text for \<^verbatim>\<open>None\<close>. Bytes are decoded as UTF-8
  and the text quoted by \<^verbatim>\<open>htmlquote\<close>; a text is quoted as it is; any other value is
  rendered by \<^verbatim>\<open>str()\<close> and the rendering quoted. Whatever \<^verbatim>\<open>websafe\<close> returns is a
  text, never \<^verbatim>\<open>None\<close> and never bytes, and it returns for every value but bytes
  that are not UTF-8, where the decoding raises. A text without \<^verbatim>\<open>&\<close>, \<^verbatim>\<open><\<close>,
  \<^verbatim>\<open>>\<close>, apostrophe and double quote, such as the single character U+203D, is returned
  unchanged.
\<close>

theorem websafe_returns_quoted_text:
  "websafe PyNone = Inr (PyStr [])
   \<and> websafe (PyBytes b) =
       (case utf8 (map of_char b) of
          None \<Rightarrow> Inl UnicodeDecodeError
        | Some u \<Rightarrow> Inr (PyStr (htmlquote u)))
   \<and> websafe (PyStr s) = Inr (PyStr (htmlquote s))
   \<and> (v \<noteq> PyNone \<and> (\<forall>x. v \<noteq> PyBytes x) \<and> (\<forall>x. v \<noteq> PyStr x)
        \<longrightarrow> websafe v = Inr (PyStr (htmlquote (py_str v))))
   \<and> ((\<exists>t. websafe v = Inr (PyStr t))
        \<or> (\<exists>x. v = PyBytes x \<and> utf8 (map of_char x) = None
                \<and> websafe v = Inl UnicodeDecodeError))
   \<and> (set s \<inter> {0x26, 0x3C, 0x3E, 0x27, 0x22} = {} \<longrightarrow> websafe (PyStr s) = Inr (PyStr s))"
proof (intro conjI impI)
  show "websafe PyNone = Inr (PyStr [])"
    by (simp add: uni_def)
  show "websafe (PyBytes b) =
      (case utf8 (map of_char b) of
         None \<Rightarrow> Inl UnicodeDecodeError
       | Some u \<Rightarrow> Inr (PyStr (htmlquote u)))"
    by (rule websafe_bytes)
  show "websafe (PyStr s) = Inr (PyStr (htmlquote s))"
    by simp
  show "websafe v = Inr (PyStr (htmlquote (py_str v)))"
    if "v \<noteq> PyNone \<and> (\<forall>x. v \<noteq> PyBytes x) \<and> (\<forall>x. v \<noteq> PyStr x)"
    using that by (simp add: websafe_other)
  show "(\<exists>t. websafe v = Inr (PyStr t))
      \<or> (\<exists>x. v = PyBytes x \<and> utf8 (map of_char x) = None
              \<and> websafe v = Inl UnicodeDecodeError)"
    by (rule websafe_total)
  show "websafe (PyStr s) = Inr (PyStr s)"
    if "set s \<inter> {0x26, 0x3C, 0x3E, 0x27, 0x22} = {}"
    using that by (simp add: htmlquote_plain)
qed

text \<open>
  The theorem at the integer 42, at the character U+203D as a text and at the three
  bytes that encode it.
\<close>

theorem websafe_returns_quoted_text_witness:
  "websafe (PyInt 42) = Inr (PyStr (uni ''42''))
   \<and> websafe (PyStr [0x203D]) = Inr (PyStr [0x203D])
   \<and> websafe (PyBytes [CHR 0xE2, CHR 0x80, CHR 0xBD]) = Inr (PyStr [0x203D])"
proof -
  have plain: "set [0x203D] \<inter> {0x26, 0x3C, 0x3E, 0x27, 0x22} = ({} :: nat set)"
    by simp
  have decoded: "utf8 [226, 128, 189] = Some [0x203D]"
    by (simp add: utf8.simps decode1_def continuation_def)
  have rendered: "str_int 42 = [52, 50]"
    by (simp add: str_int_def digits.simps)
  have quoted: "htmlquote [52, 50] = [52, 50]" "htmlquote [0x203D] = [0x203D]"
    by (simp_all add: htmlquote_plain)
  show ?thesis
    using websafe_returns_quoted_text
      [of "[CHR 0xE2, CHR 0x80, CHR 0xBD]" "[0x203D]" "PyInt 42"] plain
    by (simp add: decoded rendered quoted decode_utf8_def uni_def)
qed

subsection \<open>safestr\<close>

lemma safestr_iter: "safestr (PyIter True r xs) = Seq (map safestr xs)"
  by (subst safestr.simps) simp

lemma safestr_true_next:
  "truthy v \<and> has_next v \<Longrightarrow> \<exists>r ys. v = PyIter True r ys \<and> safestr v = Seq (map safestr ys)"
  by (cases v) (simp_all add: safestr_iter)

lemma safestr_other: "\<not> (truthy v \<and> has_next v) \<Longrightarrow> safestr v = Text (py_str v)"
  by (subst safestr.simps) auto

lemma utf8_length: "utf8 bs = Some s \<Longrightarrow> length s \<le> length bs"
proof (induction bs arbitrary: s rule: utf8.induct)
  case (1 bs)
  show ?case
  proof (cases "bs = []")
    case True
    with "1.prems" show ?thesis by (simp add: utf8.simps)
  next
    case False
    from "1.prems" False obtain c r s'
      where d: "decode1 bs = Some (c, r)" and u: "utf8 r = Some s'" and s: "s = c # s'"
      by (subst (asm) utf8.simps) (auto split: option.splits)
    from "1.IH" [OF False d refl u] have "length s' \<le> length r" .
    with decode1_shorter [OF d] s show ?thesis by simp
  qed
qed

lemma repr_bytes_length: "length b + 3 \<le> length (repr_bytes b)"
proof -
  have "length xs \<le> length (concat (map (\<lambda>c. repr_byte q (of_char c)) xs))"
    for q and xs :: string
    by (induction xs) (auto simp: repr_byte_def)
  then show ?thesis
    by (simp add: repr_bytes_def Let_def uni_def)
qed

lemma repr_bytes_not_decoded: "decode_utf8 b = Inr s \<Longrightarrow> repr_bytes b \<noteq> s"
proof
  assume d: "decode_utf8 b = Inr s" and e: "repr_bytes b = s"
  from d have "utf8 (map of_char b) = Some s"
    by (simp add: decode_utf8_def split: option.splits)
  then have "length s \<le> length b"
    using utf8_length by fastforce
  with repr_bytes_length [of b] e show False by simp
qed

subsection \<open>C2: safestr\<close>

text \<open>
  C2, as the claim states it, asks that a byte string be decoded as UTF-8. It is not:
  the bytes \<^verbatim>\<open>abc\<close> decode to the text \<^verbatim>\<open>abc\<close>, and \<^verbatim>\<open>safestr\<close> returns the six
  characters \<^verbatim>\<open>b'abc'\<close>.
\<close>

theorem safestr_bytes_counterexample:
  "decode_utf8 ''abc'' = Inr (uni ''abc'')
   \<and> safestr (PyBytes ''abc'')
       = Text (uni [CHR ''b'', CHR 0x27, CHR ''a'', CHR ''b'', CHR ''c'', CHR 0x27])
   \<and> safestr (PyBytes ''abc'') \<noteq> Text (uni ''abc'')"
  by (simp add: decode_utf8_def utf8.simps decode1_def safestr.simps repr_bytes_def
      repr_byte_def uni_def)

text \<open>
  C2, amended. For an object that has \<^verbatim>\<open>__next__\<close> and is true in the test of line
  272, \<^verbatim>\<open>safestr\<close> returns the list of the results of \<^verbatim>\<open>safestr\<close> on the elements
  pulled from it, in their order. For every other value, an object with \<^verbatim>\<open>__next__\<close>
  that is false in that test among them, it returns \<^verbatim>\<open>str()\<close> of the value: a text as
  it is, and a byte string as its literal \<^verbatim>\<open>b'...'\<close>, which is never the text that the
  bytes decode to.
\<close>

theorem safestr_iterator_or_str:
  "(truthy v \<and> has_next v \<longrightarrow>
      (\<exists>r ys. v = PyIter True r ys \<and> safestr v = Seq (map safestr ys)))
   \<and> (\<not> (truthy v \<and> has_next v) \<longrightarrow> safestr v = Text (py_str v))
   \<and> safestr (PyIter True r xs) = Seq (map safestr xs)
   \<and> safestr (PyIter False r xs) = Text r
   \<and> safestr (PyStr s) = Text s
   \<and> safestr (PyBytes b) = Text (repr_bytes b)
   \<and> (decode_utf8 b = Inr s \<longrightarrow> safestr (PyBytes b) \<noteq> Text s)"
  by (simp add: safestr_iter safestr_true_next safestr_other repr_bytes_not_decoded)

text \<open>
  The theorem at the examples of the docstring, \<^verbatim>\<open>safestr('hello')\<close> and
  \<^verbatim>\<open>safestr(2)\<close>, at a generator that yields both, at a generator that yields
  nothing, at an object with \<^verbatim>\<open>__next__\<close> whose \<^verbatim>\<open>__len__\<close> is zero, and at the bytes
  \<^verbatim>\<open>hello\<close>.
\<close>

theorem safestr_iterator_or_str_witness:
  "safestr (PyInt 2) = Text (uni ''2'')
   \<and> safestr (PyStr (uni ''hello'')) = Text (uni ''hello'')
   \<and> safestr (PyIter True (uni ''<generator>'') [PyStr (uni ''hello''), PyInt 2])
       = Seq [Text (uni ''hello''), Text (uni ''2'')]
   \<and> safestr (PyIter True (uni ''<generator>'') []) = Seq []
   \<and> safestr (PyIter False (uni ''<Empty>'') []) = Text (uni ''<Empty>'')
   \<and> decode_utf8 ''hello'' = Inr (uni ''hello'')
   \<and> safestr (PyBytes ''hello'') \<noteq> Text (uni ''hello'')"
proof -
  have decoded: "decode_utf8 ''hello'' = Inr (uni ''hello'')"
    by (simp add: decode_utf8_def utf8.simps decode1_def uni_def)
  have two: "py_str (PyInt 2) = uni ''2''"
    by (simp add: str_int_def digits.simps uni_def)
  have no_next: "\<not> (truthy (PyInt 2) \<and> has_next (PyInt 2))"
    by simp
  note at_2 = safestr_iterator_or_str [of "PyInt 2" "uni ''<generator>''"
      "[PyStr (uni ''hello''), PyInt 2]" "uni ''hello''" "''hello''"]
  note at_empty = safestr_iterator_or_str [of "PyInt 2" "uni ''<generator>''" "[]"
      "uni ''hello''" "''hello''"]
  note at_false = safestr_iterator_or_str [of "PyInt 2" "uni ''<Empty>''" "[]"
      "uni ''hello''" "''hello''"]
  have c1: "safestr (PyInt 2) = Text (uni ''2'')"
    using at_2 [THEN conjunct2, THEN conjunct1, rule_format, OF no_next] two by simp
  have c2: "safestr (PyStr (uni ''hello'')) = Text (uni ''hello'')"
    by (rule at_2 [THEN conjunct2, THEN conjunct2, THEN conjunct2, THEN conjunct2, THEN conjunct1])
  have c3: "safestr (PyIter True (uni ''<generator>'') [PyStr (uni ''hello''), PyInt 2])
      = Seq [Text (uni ''hello''), Text (uni ''2'')]"
    using at_2 [THEN conjunct2, THEN conjunct2, THEN conjunct1] c1 c2 by simp
  have c4: "safestr (PyIter True (uni ''<generator>'') []) = Seq []"
    using at_empty [THEN conjunct2, THEN conjunct2, THEN conjunct1] by simp
  have c5: "safestr (PyIter False (uni ''<Empty>'') []) = Text (uni ''<Empty>'')"
    by (rule at_false [THEN conjunct2, THEN conjunct2, THEN conjunct2, THEN conjunct1])
  have c7: "safestr (PyBytes ''hello'') \<noteq> Text (uni ''hello'')"
    by (rule at_2 [THEN conjunct2, THEN conjunct2, THEN conjunct2, THEN conjunct2,
          THEN conjunct2, THEN conjunct2, rule_format, OF decoded])
  from c1 c2 c3 c4 c5 decoded c7 show ?thesis
    by (intro conjI)
qed

subsection \<open>Dictionaries as maps\<close>

lemma map_of_dict_setitem: "map_of (dict_setitem d key v) = (map_of d)(key \<mapsto> v)"
  by (simp add: dict_setitem_def update_conv')

lemma map_of_dict_delete: "map_of (AList.delete key d) = (map_of d)(key := None)"
  by (simp add: delete_conv')

lemma dict_getitem_setitem: "dict_getitem (dict_setitem d key v) key = Inr v"
  by (simp add: dict_getitem_def map_of_dict_setitem)

subsection \<open>The hooks of Storage\<close>

lemma Storage_getattr_eq:
  "Storage_getattr self key =
     (case map_of self key of
        None \<Rightarrow> Inl (AttributeError (Caught (KeyError key)))
      | Some v \<Rightarrow> Inr v)"
  by (simp add: Storage_getattr_def dict_getitem_def split: option.splits)

lemma Storage_delattr_eq:
  "Storage_delattr self key =
     (if dict_contains self key then Inr (AList.delete key self)
      else Inl (AttributeError (Caught (KeyError key))))"
  by (simp add: Storage_delattr_def dict_delitem_def)

lemma Storage_getattr_present:
  "dict_contains self key \<Longrightarrow> Storage_getattr self key = dict_getitem self key"
  by (auto simp: Storage_getattr_eq dict_getitem_def dict_contains_def)

lemma Storage_delattr_present:
  "dict_contains self key \<Longrightarrow> Storage_delattr self key = dict_delitem self key"
  by (simp add: Storage_delattr_eq dict_delitem_def)

lemma Storage_absent:
  "\<not> dict_contains self key \<Longrightarrow>
   dict_getitem self key = Inl (KeyError key)
   \<and> dict_delitem self key = Inl (KeyError key)
   \<and> Storage_getattr self key = Inl (AttributeError (Caught (KeyError key)))
   \<and> Storage_delattr self key = Inl (AttributeError (Caught (KeyError key)))"
  by (simp add: Storage_getattr_eq Storage_delattr_eq dict_getitem_def dict_delitem_def
      dict_contains_def)

lemma Storage_getattr_setattr: "Storage_getattr (Storage_setattr self key v) key = Inr v"
  by (simp add: Storage_getattr_eq Storage_setattr_def map_of_dict_setitem)

lemma Storage_getattr_deleted:
  "Storage_delattr self key = Inr self' \<Longrightarrow>
   Storage_getattr self' key = Inl (AttributeError (Caught (KeyError key)))"
  by (auto simp: Storage_getattr_eq Storage_delattr_eq map_of_dict_delete split: if_splits)

subsection \<open>C5: Storage\<close>

text \<open>
  C5, as the claim states it, holds of every key. It fails for a key that the class
  provides. Line 235 of the source writes the member \<^verbatim>\<open>__doc__\<close> of the configuration
  container, which stores the text under the key \<^verbatim>\<open>__doc__\<close>; the map read of that key
  returns the text, and the member read returns the docstring of the class
  \<^verbatim>\<open>Storage\<close>, whatever \<^verbatim>\<open>dict\<close> provides besides.
\<close>

theorem Storage_member_read_counterexample:
  "dict_getitem (Storage_member_write [] (uni ''__doc__'') (PyStr (uni ''A configuration object'')))
     (uni ''__doc__'')
     = Inr (PyStr (uni ''A configuration object''))
   \<and> Storage_member_read []
       (Storage_member_write [] (uni ''__doc__'') (PyStr (uni ''A configuration object'')))
       (uni ''__doc__'')
     = Inr (ClassAttribute (uni ''__doc__''))"
  by (simp add: Storage_member_write_def Storage_setattr_def dict_setitem_def dict_getitem_def
      Storage_member_read_def Storage_declared_def)

text \<open>
  C5, amended. For every container and key, the member-style write is the map write
  of the key and the member-style delete is the map delete of the key, with the error
  of an absent key raised as \<^verbatim>\<open>AttributeError\<close>. The hook \<^verbatim>\<open>__getattr__\<close> is the map
  read of the key with the same change of the error, and it is what a member-style read
  does for every key that is not the name of an attribute of the class (its docstring,
  its methods and what it inherits from \<^verbatim>\<open>dict\<close>); for such a name the member-style
  read returns the attribute of the class. For an absent key the map operations
  fail with \<^verbatim>\<open>KeyError\<close>, and the member-style read and delete fail with
  \<^verbatim>\<open>AttributeError\<close>, which carries the \<^verbatim>\<open>KeyError\<close> and with it the key. A member
  read after a member write of such a key returns the value written, and after a member
  delete it fails.
\<close>

theorem Storage_members_are_entries:
  "Storage_member_write self key v = dict_setitem self key v
   \<and> Storage_member_delete self key =
       (if dict_contains self key then dict_delitem self key
        else Inl (AttributeError (Caught (KeyError key))))
   \<and> Storage_getattr self key =
       (if dict_contains self key then dict_getitem self key
        else Inl (AttributeError (Caught (KeyError key))))
   \<and> (key \<notin> set Storage_declared \<and> key \<notin> set inherited \<longrightarrow>
        Storage_member_read inherited self key =
          (if dict_contains self key then map_sum id Entry (dict_getitem self key)
           else Inl (AttributeError (Caught (KeyError key))))
        \<and> Storage_member_read inherited (Storage_member_write self key v) key = Inr (Entry v)
        \<and> (\<forall>self'. Storage_member_delete self key = Inr self' \<longrightarrow>
              Storage_member_read inherited self' key
                = Inl (AttributeError (Caught (KeyError key)))))
   \<and> (\<not> dict_contains self key \<longrightarrow>
        dict_getitem self key = Inl (KeyError key)
        \<and> dict_delitem self key = Inl (KeyError key))
   \<and> (key \<in> set Storage_declared \<or> key \<in> set inherited \<longrightarrow>
        Storage_member_read inherited self key = Inr (ClassAttribute key))"
proof (intro conjI impI allI)
  show "Storage_member_read inherited self key = Inr (ClassAttribute key)"
    if "key \<in> set Storage_declared \<or> key \<in> set inherited"
    using that by (simp add: Storage_member_read_def)
  show "Storage_member_write self key v = dict_setitem self key v"
    by (simp add: Storage_member_write_def Storage_setattr_def)
  show "Storage_member_delete self key =
      (if dict_contains self key then dict_delitem self key
       else Inl (AttributeError (Caught (KeyError key))))"
    by (simp add: Storage_member_delete_def Storage_delattr_present Storage_absent)
  show "Storage_getattr self key =
      (if dict_contains self key then dict_getitem self key
       else Inl (AttributeError (Caught (KeyError key))))"
    by (simp add: Storage_getattr_present Storage_absent)
  show "dict_getitem self key = Inl (KeyError key)" if "\<not> dict_contains self key"
    using that by (simp add: Storage_absent)
  show "dict_delitem self key = Inl (KeyError key)" if "\<not> dict_contains self key"
    using that by (simp add: Storage_absent)
next
  assume k: "key \<notin> set Storage_declared \<and> key \<notin> set inherited"
  then have read: "Storage_member_read inherited d key =
      (case Storage_getattr d key of Inl e \<Rightarrow> Inl e | Inr x \<Rightarrow> Inr (Entry x))" for d :: "'a dict"
    by (simp add: Storage_member_read_def)
  show "Storage_member_read inherited self key =
      (if dict_contains self key then map_sum id Entry (dict_getitem self key)
       else Inl (AttributeError (Caught (KeyError key))))"
    by (auto simp: read Storage_getattr_eq dict_getitem_def dict_contains_def)
  show "Storage_member_read inherited (Storage_member_write self key v) key = Inr (Entry v)"
    by (simp add: read Storage_member_write_def Storage_getattr_setattr)
  show "Storage_member_read inherited self' key = Inl (AttributeError (Caught (KeyError key)))"
    if "Storage_member_delete self key = Inr self'" for self'
    using that by (simp add: read Storage_member_delete_def Storage_getattr_deleted)
qed

text \<open>
  The theorem at the session of the docstring (lines 12 to 24): the container with
  \<^verbatim>\<open>a = 1\<close>, the key \<^verbatim>\<open>a\<close> and the value 2, with \<^verbatim>\<open>keys\<close> taken as a name that
  \<^verbatim>\<open>dict\<close> provides; and at the absent key \<^verbatim>\<open>b\<close>.
\<close>

theorem Storage_members_are_entries_witness:
  "Storage_member_read [uni ''keys''] [(uni ''a'', 1 :: int)] (uni ''a'') = Inr (Entry 1)
   \<and> dict_getitem [(uni ''a'', 1 :: int)] (uni ''a'') = Inr 1
   \<and> Storage_member_read [uni ''keys''] (Storage_member_write [(uni ''a'', 1 :: int)] (uni ''a'') 2)
       (uni ''a'') = Inr (Entry 2)
   \<and> dict_getitem (Storage_member_write [(uni ''a'', 1 :: int)] (uni ''a'') 2) (uni ''a'') = Inr 2
   \<and> Storage_member_delete [(uni ''a'', 1 :: int)] (uni ''a'') = Inr []
   \<and> Storage_member_read [uni ''keys''] ([] :: int dict) (uni ''a'')
       = Inl (AttributeError (Caught (KeyError (uni ''a''))))
   \<and> Storage_member_read [uni ''keys''] [(uni ''a'', 1 :: int)] (uni ''b'')
       = Inl (AttributeError (Caught (KeyError (uni ''b''))))
   \<and> Storage_member_delete [(uni ''a'', 1 :: int)] (uni ''b'')
       = Inl (AttributeError (Caught (KeyError (uni ''b''))))
   \<and> dict_getitem [(uni ''a'', 1 :: int)] (uni ''b'') = Inl (KeyError (uni ''b''))"
proof -
  let ?d = "[(uni ''a'', 1 :: int)]"
  have a: "uni ''a'' \<notin> set Storage_declared \<and> uni ''a'' \<notin> set [uni ''keys'']"
    and b: "uni ''b'' \<notin> set Storage_declared \<and> uni ''b'' \<notin> set [uni ''keys'']"
    by (simp_all add: Storage_declared_def uni_def)
  have present: "dict_contains ?d (uni ''a'')"
    and absent: "\<not> dict_contains ?d (uni ''b'')"
    by (simp_all add: dict_contains_def uni_def)
  have deleted: "dict_delitem ?d (uni ''a'') = Inr []"
    by (simp add: dict_delitem_def dict_contains_def)
  have got: "dict_getitem ?d (uni ''a'') = Inr 1"
    by (simp add: dict_getitem_def)
  note at_a = Storage_members_are_entries [of ?d "uni ''a''" 2 "[uni ''keys'']"]
  note at_b = Storage_members_are_entries [of ?d "uni ''b''" 2 "[uni ''keys'']"]
  note write_a = at_a [THEN conjunct1]
  note delete_a = at_a [THEN conjunct2, THEN conjunct1]
  note members_a = at_a [THEN conjunct2, THEN conjunct2, THEN conjunct2, THEN conjunct1, rule_format, OF a]
  note delete_b = at_b [THEN conjunct2, THEN conjunct1]
  note members_b = at_b [THEN conjunct2, THEN conjunct2, THEN conjunct2, THEN conjunct1, rule_format, OF b]
  note absent_b = at_b [THEN conjunct2, THEN conjunct2, THEN conjunct2, THEN conjunct2,
      THEN conjunct1, rule_format, OF absent]
  have del: "Storage_member_delete ?d (uni ''a'') = Inr []"
    by (simp only: delete_a present deleted if_True)
  have read: "Storage_member_read [uni ''keys''] ?d (uni ''a'') = Inr (Entry 1)"
    by (simp only: members_a [THEN conjunct1] present got if_True map_sum.simps)
  have rw: "Storage_member_read [uni ''keys''] (Storage_member_write ?d (uni ''a'') 2)
       (uni ''a'') = Inr (Entry 2)"
    by (rule members_a [THEN conjunct2, THEN conjunct1])
  have gw: "dict_getitem (Storage_member_write ?d (uni ''a'') 2) (uni ''a'') = Inr 2"
    by (simp only: write_a dict_getitem_setitem)
  have rd: "Storage_member_read [uni ''keys''] ([] :: int dict) (uni ''a'')
       = Inl (AttributeError (Caught (KeyError (uni ''a''))))"
    by (rule members_a [THEN conjunct2, THEN conjunct2, rule_format, OF del])
  have rb: "Storage_member_read [uni ''keys''] ?d (uni ''b'')
       = Inl (AttributeError (Caught (KeyError (uni ''b''))))"
    by (simp only: members_b [THEN conjunct1] absent if_False)
  have db: "Storage_member_delete ?d (uni ''b'')
       = Inl (AttributeError (Caught (KeyError (uni ''b''))))"
    by (simp only: delete_b absent if_False)
  have gb: "dict_getitem ?d (uni ''b'') = Inl (KeyError (uni ''b''))"
    by (rule absent_b [THEN conjunct1])
  from read got rw gw del rd rb db gb show ?thesis
    by (intro conjI)
qed

subsection \<open>ThreadedDict: what an operation touches\<close>

lemmas ThreadedDict_defs =
  getitem_def setitem_def delitem_def contains_def clear_def copy_def get_def items_def
  keys_def values_of_def undefined_name_def iteritems_def iterkeys_def itervalues_def
  pop_def popitem_def setdefault_def update_def

lemma perform_frame: "t \<noteq> t' \<Longrightarrow> snd (perform t op self) t' = self t'"
  by (cases op) (simp_all add: ThreadedDict_defs case_prod_beta split: sum.splits)

lemma perform_local_result:
  "self1 t = self2 t \<Longrightarrow> fst (perform t op self1) = fst (perform t op self2)"
  by (cases op) (simp_all add: ThreadedDict_defs case_prod_beta split: sum.splits)

lemma perform_local_state:
  "self1 t = self2 t \<Longrightarrow> snd (perform t op self1) t = snd (perform t op self2) t"
  by (cases op) (simp_all add: ThreadedDict_defs case_prod_beta split: sum.splits)

lemma perform_all_own:
  "self1 t = self2 t \<Longrightarrow>
   perform_all ops self1 t = perform_all (filter (\<lambda>(u, op). u = t) ops) self2 t"
proof (induction ops arbitrary: self1 self2)
  case Nil
  then show ?case by simp
next
  case (Cons a ops)
  obtain u op where a: "a = (u, op)" by (cases a)
  show ?case
  proof (cases "u = t")
    case True
    from Cons.prems have "snd (perform t op self1) t = snd (perform t op self2) t"
      by (rule perform_local_state)
    then have "perform_all ops (snd (perform t op self1)) t
        = perform_all (filter (\<lambda>(u, op). u = t) ops) (snd (perform t op self2)) t"
      by (rule Cons.IH [of "snd (perform t op self1)" "snd (perform t op self2)"])
    with a True show ?thesis by simp
  next
    case False
    then have "snd (perform u op self1) t = self1 t"
      by (rule perform_frame)
    with Cons.prems have "snd (perform u op self1) t = self2 t"
      by simp
    then have "perform_all ops (snd (perform u op self1)) t
        = perform_all (filter (\<lambda>(u, op). u = t) ops) self2 t"
      by (rule Cons.IH [of "snd (perform u op self1)" self2])
    with a False show ?thesis by simp
  qed
qed

lemma getitem_setitem_same: "getitem t (setitem t self key v) key = Inr v"
  by (simp add: getitem_def setitem_def dict_getitem_setitem)

lemma getitem_setitem_other:
  "t \<noteq> u \<Longrightarrow> getitem t (setitem u self key v) key' = getitem t self key'"
  by (simp add: getitem_def setitem_def)

subsection \<open>C9: ThreadedDict\<close>

text \<open>
  C9. With the state of a handle as a dictionary for every thread: an operation that
  thread \<open>t\<close> performs leaves the dictionary of every other thread as it was; what it
  returns and what it makes of the dictionary of \<open>t\<close> depend on the dictionary of \<open>t\<close>
  alone; so after any run of operations of any threads, the dictionary of \<open>t\<close> is what
  the operations of \<open>t\<close> alone would have made of it. When thread \<open>a\<close> writes a key
  and thread \<open>b\<close> then writes the same key, \<open>a\<close> reads back its own value and \<open>b\<close> its
  own.
\<close>

theorem ThreadedDict_threads_are_isolated:
  "(t \<noteq> t' \<longrightarrow> snd (perform t op self) t' = self t')
   \<and> (self1 t = self2 t \<longrightarrow>
        fst (perform t op self1) = fst (perform t op self2)
        \<and> snd (perform t op self1) t = snd (perform t op self2) t)
   \<and> perform_all ops self t = perform_all (filter (\<lambda>(u, op). u = t) ops) self t
   \<and> (a \<noteq> b \<longrightarrow>
        getitem a (setitem b (setitem a self x v1) x v2) x = Inr v1
        \<and> getitem b (setitem b (setitem a self x v1) x v2) x = Inr v2)"
proof (intro conjI impI)
  show "snd (perform t op self) t' = self t'" if "t \<noteq> t'"
    using that by (rule perform_frame)
  show "fst (perform t op self1) = fst (perform t op self2)" if "self1 t = self2 t"
    using that by (rule perform_local_result)
  show "snd (perform t op self1) t = snd (perform t op self2) t" if "self1 t = self2 t"
    using that by (rule perform_local_state)
  show "perform_all ops self t = perform_all (filter (\<lambda>(u, op). u = t) ops) self t"
    by (rule perform_all_own) simp
  show "getitem a (setitem b (setitem a self x v1) x v2) x = Inr v1" if "a \<noteq> b"
    using that by (simp add: getitem_setitem_other getitem_setitem_same)
  show "getitem b (setitem b (setitem a self x v1) x v2) x = Inr v2"
    by (rule getitem_setitem_same)
qed

text \<open>
  The theorem at the session of the docstring (lines 54 to 65), with the threads 0 and
  1 and a handle that is empty for both: thread 0 sets \<^verbatim>\<open>x\<close> to 1, thread 1 sets it to
  2, and thread 0 still reads 1.
\<close>

theorem ThreadedDict_threads_are_isolated_witness:
  "getitem (0 :: nat) (setitem 1 (setitem 0 (\<lambda>t. []) (uni ''x'') (1 :: int)) (uni ''x'') 2) (uni ''x'')
     = Inr 1
   \<and> getitem (1 :: nat) (setitem 1 (setitem 0 (\<lambda>t. []) (uni ''x'') (1 :: int)) (uni ''x'') 2) (uni ''x'')
     = Inr 2
   \<and> snd (perform (1 :: nat) (SetItem (uni ''x'') (2 :: int)) (\<lambda>t. [])) 0 = []
   \<and> perform_all [(0 :: nat, SetItem (uni ''x'') (1 :: int)), (1, SetItem (uni ''x'') 2)] (\<lambda>t. []) 0
     = [(uni ''x'', 1)]"
proof -
  let ?empty = "\<lambda>t :: nat. [] :: int dict"
  let ?run = "[(0 :: nat, SetItem (uni ''x'') (1 :: int)), (1, SetItem (uni ''x'') 2)]"
  have threads: "(0 :: nat) \<noteq> 1" and threads': "(1 :: nat) \<noteq> 0"
    by simp_all
  note at_0 = ThreadedDict_threads_are_isolated
    [of 0 1 "SetItem (uni ''x'') 2" ?empty ?empty ?empty ?run 0 1 "uni ''x''" 1 2]
  note at_1 = ThreadedDict_threads_are_isolated
    [of 1 0 "SetItem (uni ''x'') 2" ?empty ?empty ?empty ?run 0 1 "uni ''x''" 1 2]
  note reads = at_0 [THEN conjunct2, THEN conjunct2, THEN conjunct2, rule_format, OF threads]
  note frame = at_1 [THEN conjunct1, rule_format, OF threads']
  note own = at_0 [THEN conjunct2, THEN conjunct2, THEN conjunct1]
  have "perform_all (filter (\<lambda>(u, op). u = 0) ?run) ?empty 0 = [(uni ''x'', 1)]"
    by (simp add: setitem_def dict_setitem_def)
  with own have run: "perform_all ?run ?empty 0 = [(uni ''x'', 1)]"
    by (simp only:)
  from frame have untouched: "snd (perform (1 :: nat) (SetItem (uni ''x'') (2 :: int)) ?empty) 0 = []"
    by (simp only:)
  from reads [THEN conjunct1] reads [THEN conjunct2] untouched run show ?thesis
    by (intro conjI)
qed

subsection \<open>header: the test, the scan and the append\<close>

lemma occurs_char: "occurs [c] s \<longleftrightarrow> c \<in> set s"
  by (induction s) auto

lemma py_in_line_break:
  "(py_in (uni [CHR 0x0A]) c \<or> py_in (uni [CHR 0x0D]) c) = has_line_break c"
  by (cases c) (simp_all add: py_in_def has_line_break_def uni_def occurs_char)

lemma header_exists_error:
  "header_exists lower hdr hs = Inl e \<Longrightarrow> e = no_attribute ''list'' ''lower''"
  by (induction hs) (auto simp: lower_method_def split: coerced.splits if_splits)

lemma ctx_headers_error:
  "ctx_headers t ctx = Inl e \<Longrightarrow> e = no_attribute ''ThreadedDict'' ''headers''"
  by (simp add: ctx_headers_def split: option.splits)

lemma no_attribute_not_ValueError: "no_attribute a b \<noteq> ValueError m"
  by (simp add: no_attribute_def)

lemma ctx_headers_setitem:
  "ctx_headers t (setitem t ctx (uni ''headers'') hs) = Inr hs"
  by (simp add: ctx_headers_def setitem_def map_of_dict_setitem)

lemma header_invalid:
  "has_line_break (safestr hdr) \<or> has_line_break (safestr val) \<Longrightarrow>
   header lower t hdr val unique ctx = (Inl (ValueError (uni ''invalid characters in header'')), ctx)"
  using py_in_line_break [of "safestr hdr"] py_in_line_break [of "safestr val"]
  by (auto simp: header_def Let_def)

lemma header_valid:
  "\<not> has_line_break (safestr hdr) \<Longrightarrow> \<not> has_line_break (safestr val) \<Longrightarrow>
   header lower t hdr val unique ctx =
     (case (if unique = PyBool True
            then (case ctx_headers t ctx of
                    Inl e \<Rightarrow> Inl e
                  | Inr hs \<Rightarrow> header_exists lower (safestr hdr) hs)
            else Inr False) of
        Inl e \<Rightarrow> (Inl e, ctx)
      | Inr True \<Rightarrow> (Inr (), ctx)
      | Inr False \<Rightarrow>
          (case ctx_headers t ctx of
             Inl e \<Rightarrow> (Inl e, ctx)
           | Inr hs \<Rightarrow> (Inr (), setitem t ctx (uni ''headers'') (hs @ [(safestr hdr, safestr val)]))))"
  using py_in_line_break [of "safestr hdr"] py_in_line_break [of "safestr val"]
  by (simp add: header_def Let_def)

lemma header_valid_no_ValueError:
  "\<not> has_line_break (safestr hdr) \<Longrightarrow> \<not> has_line_break (safestr val) \<Longrightarrow>
   fst (header lower t hdr val unique ctx) \<noteq> Inl (ValueError m)"
  by (auto simp: header_valid no_attribute_not_ValueError split: sum.splits bool.splits
      dest!: header_exists_error ctx_headers_error)

lemma header_error_unchanged:
  "fst (header lower t hdr val unique ctx) = Inl e \<Longrightarrow> snd (header lower t hdr val unique ctx) = ctx"
  by (cases "has_line_break (safestr hdr) \<or> has_line_break (safestr val)")
    (auto simp: header_invalid header_valid split: sum.splits bool.splits if_splits)

lemma header_not_unique:
  "unique \<noteq> PyBool True \<Longrightarrow>
   header lower t hdr val unique ctx =
     (if has_line_break (safestr hdr) \<or> has_line_break (safestr val)
      then (Inl (ValueError (uni ''invalid characters in header'')), ctx)
      else (case ctx_headers t ctx of
              Inl e \<Rightarrow> (Inl e, ctx)
            | Inr hs \<Rightarrow> (Inr (), setitem t ctx (uni ''headers'') (hs @ [(safestr hdr, safestr val)]))))"
  by (cases "has_line_break (safestr hdr) \<or> has_line_break (safestr val)")
    (auto simp: header_invalid header_valid)

lemma header_exists_texts:
  "names_are_texts hs \<Longrightarrow>
   header_exists lower (Text n) hs = Inr (named lower n hs \<noteq> [])"
  by (induction hs) (auto simp: names_are_texts_def named_def lower_method_def split: coerced.splits)

lemma header_unique_texts:
  assumes "safestr hdr = Text n"
    and "\<not> has_line_break (Text n)" and "\<not> has_line_break (safestr val)"
    and "ctx_headers t ctx = Inr hs" and "names_are_texts hs"
  shows "header lower t hdr val (PyBool True) ctx =
     (if named lower n hs \<noteq> [] then (Inr (), ctx)
      else (Inr (), setitem t ctx (uni ''headers'') (hs @ [(Text n, safestr val)])))"
  using assms by (simp add: header_valid header_exists_texts)

lemma named_append:
  "named lower n (hs @ [(Text m, v)]) = named lower n hs @ (if lower m = lower n then [(Text m, v)] else [])"
  by (simp add: named_def lower_method_def)

lemma names_are_texts_append:
  "names_are_texts (hs @ [(Text m, v)]) = names_are_texts hs"
  by (simp add: names_are_texts_def)

subsection \<open>The test for line breaks on texts\<close>

text \<open>
  When \<^verbatim>\<open>safestr\<close> returns texts for the name and for the value, that is, for every
  argument but an object with \<^verbatim>\<open>__next__\<close> that is true, \<^verbatim>\<open>header\<close> raises the
  \<^verbatim>\<open>ValueError\<close> of line 253 if and only if one of the two texts holds a line feed or a
  carriage return. Whenever \<^verbatim>\<open>header\<close> raises, the request context is as it was.
\<close>

lemma header_rejects_line_breaks_in_texts:
  assumes "\<not> (truthy hdr \<and> has_next hdr)" and "\<not> (truthy val \<and> has_next val)"
  shows "fst (header lower t hdr val unique ctx) = Inl (ValueError (uni ''invalid characters in header''))
     \<longleftrightarrow> 0x0A \<in> set (py_str hdr) \<or> 0x0D \<in> set (py_str hdr)
         \<or> 0x0A \<in> set (py_str val) \<or> 0x0D \<in> set (py_str val)"
proof (cases "has_line_break (safestr hdr) \<or> has_line_break (safestr val)")
  case True
  with assms show ?thesis
    by (auto simp: header_invalid safestr_other has_line_break_def)
next
  case False
  with assms show ?thesis
    by (auto simp: header_valid_no_ValueError safestr_other has_line_break_def)
qed

subsection \<open>C3: a line feed that header lets through\<close>

text \<open>
  C3. The claim is what line 251 announces, and the code does not keep it for an
  argument that \<^verbatim>\<open>safestr\<close> turns into a list. The call
  \<^verbatim>\<open>header('X-Test', iter(['a\nb']))\<close>, by thread 0 with an empty list of headers,
  returns and appends the pair whose value is the list of the text \<^verbatim>\<open>a\nb\<close>, line feed
  included: the test of line 252 asks whether the line feed is an element of the list.
  The same text given as the value itself is refused, and nothing is appended.
\<close>

theorem header_line_feed_from_iterator:
  "header ascii_lower (0 :: nat) (PyStr (uni ''X-Test''))
     (PyIter True (uni ''<list_iterator>'') [PyStr (uni [CHR ''a'', CHR 0x0A, CHR ''b''])])
     (PyBool False) (\<lambda>t. [(uni ''headers'', [])])
   = (Inr (), (\<lambda>t. [(uni ''headers'', [])])
        (0 := [(uni ''headers'',
                [(Text (uni ''X-Test''), Seq [Text (uni [CHR ''a'', CHR 0x0A, CHR ''b''])])])]))
   \<and> header ascii_lower (0 :: nat) (PyStr (uni ''X-Test''))
       (PyStr (uni [CHR ''a'', CHR 0x0A, CHR ''b''])) (PyBool False) (\<lambda>t. [(uni ''headers'', [])])
   = (Inl (ValueError (uni ''invalid characters in header'')), \<lambda>t. [(uni ''headers'', [])])"
proof -
  have name: "safestr (PyStr (uni ''X-Test'')) = Text (uni ''X-Test'')"
    by (simp add: safestr_other)
  have text_value: "safestr (PyStr (uni [CHR ''a'', CHR 0x0A, CHR ''b'']))
      = Text (uni [CHR ''a'', CHR 0x0A, CHR ''b''])"
    by (simp add: safestr_other)
  have list_value: "safestr (PyIter True (uni ''<list_iterator>'')
        [PyStr (uni [CHR ''a'', CHR 0x0A, CHR ''b''])])
      = Seq [Text (uni [CHR ''a'', CHR 0x0A, CHR ''b''])]"
    by (simp add: safestr_iter text_value)
  have no_break_name: "\<not> has_line_break (Text (uni ''X-Test''))"
    by (simp add: has_line_break_def uni_def)
  have no_break_list: "\<not> has_line_break (Seq [Text (uni [CHR ''a'', CHR 0x0A, CHR ''b''])])"
    by (simp add: has_line_break_def uni_def)
  have break_text: "has_line_break (Text (uni [CHR ''a'', CHR 0x0A, CHR ''b'']))"
    by (simp add: has_line_break_def uni_def)
  have headers: "ctx_headers (0 :: nat) (\<lambda>t. [(uni ''headers'', [])]) = Inr []"
    by (simp add: ctx_headers_def)
  have appended: "header ascii_lower (0 :: nat) (PyStr (uni ''X-Test''))
      (PyIter True (uni ''<list_iterator>'') [PyStr (uni [CHR ''a'', CHR 0x0A, CHR ''b''])])
      (PyBool False) (\<lambda>t. [(uni ''headers'', [])])
    = (Inr (), (\<lambda>t. [(uni ''headers'', [])])
        (0 := [(uni ''headers'',
                [(Text (uni ''X-Test''), Seq [Text (uni [CHR ''a'', CHR 0x0A, CHR ''b''])])])]))"
    by (simp add: header_valid name list_value no_break_name no_break_list headers
        setitem_def dict_setitem_def)
  have refused: "header ascii_lower (0 :: nat) (PyStr (uni ''X-Test''))
      (PyStr (uni [CHR ''a'', CHR 0x0A, CHR ''b''])) (PyBool False) (\<lambda>t. [(uni ''headers'', [])])
    = (Inl (ValueError (uni ''invalid characters in header'')), \<lambda>t. [(uni ''headers'', [])])"
    by (simp add: header_invalid text_value break_text)
  from appended refused show ?thesis
    by (intro conjI)
qed

subsection \<open>C10: a unique that is not True\<close>

text \<open>
  C10. When \<^verbatim>\<open>unique\<close> is any value but the object \<^verbatim>\<open>True\<close>, the integer 2 and a
  non-empty text among them, \<^verbatim>\<open>header\<close> does not look at the names in the list of
  headers: it does what it does for \<^verbatim>\<open>unique = False\<close>, and once the name and the value
  have passed the test for line breaks and the context has its list of headers, it
  appends the pair, whether or not the name is in the list. A call that returns and
  leaves the list as it was is therefore a call with \<^verbatim>\<open>unique\<close> the object \<^verbatim>\<open>True\<close>.
\<close>

theorem header_scans_only_for_True:
  "(unique \<noteq> PyBool True \<longrightarrow>
      header lower t hdr val unique ctx = header lower t hdr val (PyBool False) ctx
      \<and> (\<forall>hs. \<not> has_line_break (safestr hdr) \<and> \<not> has_line_break (safestr val)
              \<and> ctx_headers t ctx = Inr hs \<longrightarrow>
            header lower t hdr val unique ctx
              = (Inr (), setitem t ctx (uni ''headers'') (hs @ [(safestr hdr, safestr val)]))
            \<and> ctx_headers t (snd (header lower t hdr val unique ctx))
              = Inr (hs @ [(safestr hdr, safestr val)])))
   \<and> (fst (header lower t hdr val unique ctx) = Inr ()
        \<and> ctx_headers t (snd (header lower t hdr val unique ctx)) = ctx_headers t ctx
      \<longrightarrow> unique = PyBool True)"
proof (intro conjI impI allI)
  assume u: "unique \<noteq> PyBool True"
  show "header lower t hdr val unique ctx = header lower t hdr val (PyBool False) ctx"
    using u by (simp add: header_not_unique)
  fix hs
  assume valid: "\<not> has_line_break (safestr hdr) \<and> \<not> has_line_break (safestr val)
      \<and> ctx_headers t ctx = Inr hs"
  with u show appended: "header lower t hdr val unique ctx
      = (Inr (), setitem t ctx (uni ''headers'') (hs @ [(safestr hdr, safestr val)]))"
    by (simp add: header_not_unique)
  show "ctx_headers t (snd (header lower t hdr val unique ctx))
      = Inr (hs @ [(safestr hdr, safestr val)])"
    by (simp add: appended ctx_headers_setitem)
next
  assume same: "fst (header lower t hdr val unique ctx) = Inr ()
      \<and> ctx_headers t (snd (header lower t hdr val unique ctx)) = ctx_headers t ctx"
  show "unique = PyBool True"
  proof (rule ccontr)
    assume u: "unique \<noteq> PyBool True"
    from same u show False
      by (auto simp: header_not_unique ctx_headers_setitem split: if_splits sum.splits)
  qed
qed

text \<open>
  The theorem at \<^verbatim>\<open>unique = 2\<close> and at \<^verbatim>\<open>unique = 'yes'\<close>, for a context of thread 0
  that has the header \<^verbatim>\<open>Content-Type\<close> and a call that names \<^verbatim>\<open>content-type\<close>: the
  list has both afterwards.
\<close>

theorem header_scans_only_for_True_witness:
  "header ascii_lower (0 :: nat) (PyStr (uni ''content-type'')) (PyStr (uni ''text/plain'')) (PyInt 2)
     (\<lambda>t. [(uni ''headers'', [(Text (uni ''Content-Type''), Text (uni ''text/html''))])])
   = (Inr (), (\<lambda>t. [(uni ''headers'', [(Text (uni ''Content-Type''), Text (uni ''text/html''))])])
        (0 := [(uni ''headers'', [(Text (uni ''Content-Type''), Text (uni ''text/html'')),
                                  (Text (uni ''content-type''), Text (uni ''text/plain''))])]))
   \<and> ctx_headers (0 :: nat)
       (snd (header ascii_lower 0 (PyStr (uni ''content-type'')) (PyStr (uni ''text/plain''))
          (PyStr (uni ''yes''))
          (\<lambda>t. [(uni ''headers'', [(Text (uni ''Content-Type''), Text (uni ''text/html''))])])))
     = Inr [(Text (uni ''Content-Type''), Text (uni ''text/html'')),
            (Text (uni ''content-type''), Text (uni ''text/plain''))]"
proof -
  let ?hdr = "PyStr (uni ''content-type'')"
  let ?val = "PyStr (uni ''text/plain'')"
  let ?hs = "[(Text (uni ''Content-Type''), Text (uni ''text/html''))]"
  let ?ctx = "\<lambda>t :: nat. [(uni ''headers'', ?hs)]"
  have two: "PyInt 2 \<noteq> PyBool True" and yes: "PyStr (uni ''yes'') \<noteq> PyBool True"
    by simp_all
  have name: "safestr ?hdr = Text (uni ''content-type'')"
    and val: "safestr ?val = Text (uni ''text/plain'')"
    by (simp_all add: safestr_other)
  have valid: "\<not> has_line_break (safestr ?hdr) \<and> \<not> has_line_break (safestr ?val)
      \<and> ctx_headers 0 ?ctx = Inr ?hs"
    by (simp add: safestr_other has_line_break_def ctx_headers_def uni_def)
  note at_2 = header_scans_only_for_True [of "PyInt 2" ascii_lower 0 ?hdr ?val ?ctx,
      THEN conjunct1, rule_format, OF two, THEN conjunct2, rule_format, OF valid]
  note at_yes = header_scans_only_for_True [of "PyStr (uni ''yes'')" ascii_lower 0 ?hdr ?val ?ctx,
      THEN conjunct1, rule_format, OF yes, THEN conjunct2, rule_format, OF valid]
  from at_2 [THEN conjunct1] at_yes [THEN conjunct2] show ?thesis
    by (simp add: name val setitem_def dict_setitem_def)
qed

subsection \<open>C8: unique headers\<close>

text \<open>
  C8. Let the name and the value pass the test for line breaks, the name be coerced to
  a text, and the context of the calling thread hold a list of headers whose names are
  texts. Then \<^verbatim>\<open>header\<close> with \<^verbatim>\<open>unique = True\<close> returns and changes nothing when the
  list has an entry whose name is the given name in lower case, whatever the case of
  either, and appends the pair otherwise. A second such call, with a name that differs
  from the first in case only, changes nothing; after both, the entries of that name are
  those the list had before, or the one pair of the first call if it had none.
\<close>

theorem header_unique_ignores_case:
  assumes "safestr hdr = Text n" and "safestr hdr' = Text n'" and "lower n' = lower n"
    and "\<not> has_line_break (Text n)" and "\<not> has_line_break (safestr val)"
    and "\<not> has_line_break (Text n')" and "\<not> has_line_break (safestr val')"
    and "ctx_headers t ctx = Inr hs" and "names_are_texts hs"
  shows "header lower t hdr val (PyBool True) ctx =
           (if named lower n hs \<noteq> [] then (Inr (), ctx)
            else (Inr (), setitem t ctx (uni ''headers'') (hs @ [(Text n, safestr val)])))
         \<and> header lower t hdr' val' (PyBool True) (snd (header lower t hdr val (PyBool True) ctx))
             = (Inr (), snd (header lower t hdr val (PyBool True) ctx))
         \<and> (case ctx_headers t (snd (header lower t hdr val (PyBool True) ctx)) of
               Inl e \<Rightarrow> False
             | Inr hs' \<Rightarrow>
                 named lower n hs'
                   = (if named lower n hs = [] then [(Text n, safestr val)] else named lower n hs)
                 \<and> named lower n' hs' = named lower n hs')"
proof -
  let ?ctx' = "snd (header lower t hdr val (PyBool True) ctx)"
  let ?hs' = "if named lower n hs \<noteq> [] then hs else hs @ [(Text n, safestr val)]"
  have first: "header lower t hdr val (PyBool True) ctx =
      (if named lower n hs \<noteq> [] then (Inr (), ctx)
       else (Inr (), setitem t ctx (uni ''headers'') (hs @ [(Text n, safestr val)])))"
    using assms by (simp add: header_unique_texts)
  have same: "named lower n' xs = named lower n xs" for xs
    using assms(3) by (simp add: named_def)
  have headers': "ctx_headers t ?ctx' = Inr ?hs'"
    using assms(8) by (simp add: first ctx_headers_setitem)
  have texts': "names_are_texts ?hs'"
    using assms(9) by (simp add: names_are_texts_append)
  have found: "named lower n' ?hs' \<noteq> []"
    by (simp add: same named_append)
  have second: "header lower t hdr' val' (PyBool True) ?ctx' = (Inr (), ?ctx')"
    using header_unique_texts [OF assms(2) assms(6) assms(7) headers' texts', of lower] found
    by simp
  have entries: "named lower n ?hs'
      = (if named lower n hs = [] then [(Text n, safestr val)] else named lower n hs)"
    by (simp add: named_append)
  have third: "case ctx_headers t ?ctx' of
        Inl e \<Rightarrow> False
      | Inr hs' \<Rightarrow>
          named lower n hs'
            = (if named lower n hs = [] then [(Text n, safestr val)] else named lower n hs)
          \<and> named lower n' hs' = named lower n hs'"
    unfolding headers' sum.case using entries same by (intro conjI)
  from first second third show ?thesis
    by (intro conjI)
qed

text \<open>
  The theorem at a context of thread 0 with an empty list of headers, the call
  \<^verbatim>\<open>header('Content-Type', 'text/html', unique=True)\<close> and then the call
  \<^verbatim>\<open>header('content-type', 'text/plain', unique=True)\<close>: the list holds the pair of the
  first call and nothing else.
\<close>

theorem header_unique_ignores_case_witness:
  "header ascii_lower (0 :: nat) (PyStr (uni ''Content-Type'')) (PyStr (uni ''text/html''))
     (PyBool True) (\<lambda>t. [(uni ''headers'', [])])
   = (Inr (), (\<lambda>t. [(uni ''headers'', [])])
        (0 := [(uni ''headers'', [(Text (uni ''Content-Type''), Text (uni ''text/html''))])]))
   \<and> header ascii_lower (0 :: nat) (PyStr (uni ''content-type'')) (PyStr (uni ''text/plain''))
       (PyBool True)
       ((\<lambda>t. [(uni ''headers'', [])])
        (0 := [(uni ''headers'', [(Text (uni ''Content-Type''), Text (uni ''text/html''))])]))
   = (Inr (), (\<lambda>t. [(uni ''headers'', [])])
        (0 := [(uni ''headers'', [(Text (uni ''Content-Type''), Text (uni ''text/html''))])]))
   \<and> named ascii_lower (uni ''content-type'')
       [(Text (uni ''Content-Type''), Text (uni ''text/html''))]
     = [(Text (uni ''Content-Type''), Text (uni ''text/html''))]"
proof -
  let ?hdr = "PyStr (uni ''Content-Type'')" and ?val = "PyStr (uni ''text/html'')"
  let ?hdr' = "PyStr (uni ''content-type'')" and ?val' = "PyStr (uni ''text/plain'')"
  let ?ctx = "\<lambda>t :: nat. [(uni ''headers'', [] :: headers)]"
  let ?ctx' = "?ctx(0 := [(uni ''headers'', [(Text (uni ''Content-Type''), Text (uni ''text/html''))])])"
  have name: "safestr ?hdr = Text (uni ''Content-Type'')"
    and name': "safestr ?hdr' = Text (uni ''content-type'')"
    and val: "safestr ?val = Text (uni ''text/html'')"
    and val': "safestr ?val' = Text (uni ''text/plain'')"
    by (simp_all add: safestr_other)
  have same: "ascii_lower (uni ''content-type'') = ascii_lower (uni ''Content-Type'')"
    by (simp add: ascii_lower_def uni_def)
  have valid: "\<not> has_line_break (Text (uni ''Content-Type''))"
    "\<not> has_line_break (safestr ?val)"
    "\<not> has_line_break (Text (uni ''content-type''))"
    "\<not> has_line_break (safestr ?val')"
    by (simp_all add: safestr_other has_line_break_def uni_def)
  have headers: "ctx_headers 0 ?ctx = Inr []"
    by (simp add: ctx_headers_def)
  have texts: "names_are_texts []"
    by (simp add: names_are_texts_def)
  note at = header_unique_ignores_case [OF name name' same valid headers texts]
  have none: "named ascii_lower (uni ''Content-Type'') [] = []"
    by (simp add: named_def)
  have first: "header ascii_lower 0 ?hdr ?val (PyBool True) ?ctx = (Inr (), ?ctx')"
    using at [THEN conjunct1] by (simp add: none val setitem_def dict_setitem_def)
  have second: "header ascii_lower 0 ?hdr' ?val' (PyBool True) ?ctx' = (Inr (), ?ctx')"
    using at [THEN conjunct2, THEN conjunct1] by (simp add: first)
  have "ctx_headers 0 ?ctx' = Inr [(Text (uni ''Content-Type''), Text (uni ''text/html''))]"
    by (simp add: ctx_headers_def)
  with at [THEN conjunct2, THEN conjunct2]
  have third: "named ascii_lower (uni ''content-type'')
      [(Text (uni ''Content-Type''), Text (uni ''text/html''))]
      = [(Text (uni ''Content-Type''), Text (uni ''text/html''))]"
    by (simp add: first none val)
  from first second third show ?thesis
    by (intro conjI)
qed

subsection \<open>Memoize: the paths of a call\<close>

lemma Memoize_compute_returns:
  "func self key w = (Inr r, w') \<Longrightarrow>
   Memoize_compute key self w =
     (Returned (),
      self\<lparr>cache := (cache self)(key \<mapsto> (r, now w')), running := (running self)(key \<mapsto> False)\<rparr>,
      w')"
  by (simp add: Memoize_compute_def)

lemma Memoize_compute_raises:
  "func self key w = (Inl e, w') \<Longrightarrow>
   Memoize_compute key self w = (Raised e, self\<lparr>running := (running self)(key \<mapsto> False)\<rparr>, w')"
  by (simp add: Memoize_compute_def)

lemma Memoize_update_free:
  "running self key = Some False \<Longrightarrow>
   Memoize_update key block self w =
     (case func self key w of
        (Inl e, w') \<Rightarrow> (Raised e, self, w')
      | (Inr r, w') \<Rightarrow> (Returned (), self\<lparr>cache := (cache self)(key \<mapsto> (r, now w'))\<rparr>, w'))"
  by (auto simp: Memoize_update_def Memoize_compute_def fun_upd_idem split: prod.splits sum.splits)










text \<open>A call that finds no entry and the lock free is its beginning and lines 350 to 362.\<close>

lemma Memoize_call_enter:
  assumes "cache self key = None" and "running self key \<noteq> Some True"
  shows "Memoize_call key self w =
     (case Memoize_compute key (Memoize_enter key self) w of
        (Returned u, self', w') \<Rightarrow> (cached_result key self', self', w')
      | (Raised e, self', w') \<Rightarrow> (Raised e, self', w'))"
proof (cases "running self key")
  case None
  with assms show ?thesis
    by (simp add: Memoize_call_def Memoize_update_def Memoize_enter_def)
next
  case (Some held)
  with assms have "running self key = Some False" by simp
  with assms show ?thesis
    by (simp add: Memoize_call_def Memoize_update_def Memoize_enter_def)
qed

subsection \<open>C4: the first call computes; a later call does not, unless it overlaps\<close>




subsection \<open>C7: a failure is not cached\<close>



end
